theory Spec2Isabelle
  imports Main "HOL-Library.Multiset"
begin

section \<open>The JavaScript values the two edge functions handle\<close>

text \<open>
  The repository holds two request handlers: \<^verbatim>\<open>gmail-analyze\<close> (classification of a batch
  of emails, merge and ranking) and \<^verbatim>\<open>gmail-fetch\<close> (listing and hydration of messages).
  Both are pure functions of the request and of what the outside services answer, so each is
  embedded as a HOL function that takes the outside world as an argument.

  Strings are \<^typ>\<open>string\<close>; one \<^typ>\<open>char\<close> stands for one code unit of a JavaScript
  string. Data typed by an interface of the source is a record with those fields; data typed
  \<^verbatim>\<open>any\<close> (what \<^verbatim>\<open>JSON.parse\<close> returns for the classification reply) is a \<open>jsval\<close>.

  A Number is carried by the text \<^verbatim>\<open>String(n)\<close> gives for it. The handlers do three things
  with a number: test its truthiness, compare it with a string by \<^verbatim>\<open>===\<close>, and turn it into
  a property key; the rendering decides all three.
\<close>

datatype jsval =
    JNull
  | JBool bool
  | JNum string
  | JStr string
  | JArr "jsval list"
  | JObj "(string \<times> jsval) list"

text \<open>Exceptions: \<^verbatim>\<open>new Error(msg)\<close> of the source, and the ones the runtime raises.\<close>

datatype js_error =
    Error string
  | TypeError
  | SyntaxError
  | InvalidCharacterError
  | FetchFailed

text \<open>Sequencing of steps that may throw: the first exception ends the computation.\<close>

definition bind_err :: "js_error + 'a \<Rightarrow> ('a \<Rightarrow> js_error + 'b) \<Rightarrow> js_error + 'b" where
  "bind_err m f = (case m of Inl e \<Rightarrow> Inl e | Inr x \<Rightarrow> f x)"

text \<open>\<^verbatim>\<open>xs.map(f)\<close> for a callback that may throw (also \<^verbatim>\<open>Promise.all\<close> over callbacks that
  may reject): the results in order, or the exception of the first element that throws.\<close>

fun map_err :: "('a \<Rightarrow> js_error + 'b) \<Rightarrow> 'a list \<Rightarrow> js_error + 'b list" where
  "map_err f [] = Inr []"
| "map_err f (x # xs) =
     (case f x of Inl e \<Rightarrow> Inl e
      | Inr y \<Rightarrow> (case map_err f xs of Inl e \<Rightarrow> Inl e | Inr ys \<Rightarrow> Inr (y # ys)))"

text \<open>Truthiness (\<^verbatim>\<open>!v\<close>, \<^verbatim>\<open>v || d\<close>). \<open>None\<close> is \<^verbatim>\<open>undefined\<close>.\<close>

fun truthy :: "jsval \<Rightarrow> bool" where
  "truthy JNull = False"
| "truthy (JBool b) = b"
| "truthy (JNum n) = (n \<noteq> ''0'' \<and> n \<noteq> ''NaN'')"
| "truthy (JStr s) = (s \<noteq> [])"
| "truthy (JArr xs) = True"
| "truthy (JObj kvs) = True"

text \<open>Truthiness of a value typed as a string that may be absent.\<close>

definition present :: "string option \<Rightarrow> bool" where
  "present v = (case v of None \<Rightarrow> False | Some s \<Rightarrow> s \<noteq> [])"

text \<open>\<^verbatim>\<open>v || d\<close>\<close>

definition or_default :: "jsval option \<Rightarrow> jsval \<Rightarrow> jsval" where
  "or_default v d = (case v of None \<Rightarrow> d | Some x \<Rightarrow> if truthy x then x else d)"

text \<open>
  \<^verbatim>\<open>v.name\<close> on a value that is not null, for the names the handlers read
  (\<^verbatim>\<open>candidates\<close>, \<^verbatim>\<open>content\<close>, \<^verbatim>\<open>parts\<close>, \<^verbatim>\<open>text\<close>, \<^verbatim>\<open>id\<close>, \<^verbatim>\<open>priority\<close>, \<^verbatim>\<open>reasoning\<close>):
  none of them is on a prototype, so only an object with that own property has it.
\<close>

fun get_prop :: "string \<Rightarrow> jsval \<Rightarrow> jsval option" where
  "get_prop k (JObj kvs) = map_of kvs k"
| "get_prop k v = None"

text \<open>\<^verbatim>\<open>v[0]\<close> on a value that is not null.\<close>

fun elem0 :: "jsval \<Rightarrow> jsval option" where
  "elem0 (JArr xs) = (case xs of [] \<Rightarrow> None | x # _ \<Rightarrow> Some x)"
| "elem0 (JStr s) = (case s of [] \<Rightarrow> None | c # _ \<Rightarrow> Some (JStr [c]))"
| "elem0 (JObj kvs) = map_of kvs ''0''"
| "elem0 v = None"

text \<open>Optional chaining \<^verbatim>\<open>v?.f\<close>: \<^verbatim>\<open>undefined\<close> when \<open>v\<close> is \<^verbatim>\<open>undefined\<close> or \<^verbatim>\<open>null\<close>.\<close>

fun opt_chain :: "jsval option \<Rightarrow> (jsval \<Rightarrow> jsval option) \<Rightarrow> jsval option" where
  "opt_chain None f = None"
| "opt_chain (Some JNull) f = None"
| "opt_chain (Some v) f = f v"

text \<open>
  \<^verbatim>\<open>String(v)\<close>, as a property key is computed from a value. An array joins its elements
  with commas, \<^verbatim>\<open>null\<close> elements as the empty string. A plain object gives
  \<^verbatim>\<open>[object Object]\<close> through the inherited \<^verbatim>\<open>toString\<close>; an own property \<^verbatim>\<open>toString\<close>
  (never callable in parsed JSON) hides it, the inherited \<^verbatim>\<open>valueOf\<close> returns the object,
  and the conversion throws a TypeError.
\<close>

fun to_string :: "jsval \<Rightarrow> js_error + string"
  and join_elems :: "jsval list \<Rightarrow> js_error + string" where
  "to_string JNull = Inr ''null''"
| "to_string (JBool b) = Inr (if b then ''true'' else ''false'')"
| "to_string (JNum n) = Inr n"
| "to_string (JStr s) = Inr s"
| "to_string (JArr xs) = join_elems xs"
| "to_string (JObj kvs) =
     (if ''toString'' \<in> fst ` set kvs then Inl TypeError else Inr ''[object Object]'')"
| "join_elems [] = Inr []"
| "join_elems (x # xs) =
     (case (if x = JNull then Inr [] else to_string x) of
        Inl e \<Rightarrow> Inl e
      | Inr s \<Rightarrow> (if xs = [] then Inr s
                 else (case join_elems xs of Inl e \<Rightarrow> Inl e | Inr t \<Rightarrow> Inr (s @ '','' @ t))))"

section \<open>gmail-analyze: data\<close>

text \<open>An element of \<^verbatim>\<open>AnalyzeRequest.emails\<close>. The interface types every field as a string;
  the handler reads \<^verbatim>\<open>email.body?.substring\<close>, so an absent body is part of the model.\<close>

record email =
  id' :: string
  subject :: string
  from' :: string
  date :: string
  snippet :: string
  body :: "string option"

text \<open>\<^verbatim>\<open>{ ...email, priority, reasoning, gmailUrl }\<close>: the email's own fields and three more.
  \<^verbatim>\<open>priority\<close> and \<^verbatim>\<open>reasoning\<close> are taken from the parsed reply and so are \<open>jsval\<close>s.\<close>

record prioritized_email = email +
  priority :: jsval
  reasoning :: jsval
  gmailUrl :: string

text \<open>An element of \<^verbatim>\<open>emailsForAnalysis\<close>.\<close>

record analysis_email =
  a_id :: string
  a_subject :: string
  a_from :: string
  a_snippet :: string
  a_body :: string

record analyze_request =
  accessToken :: "string option"
  emails :: "email list option"

text \<open>The one outgoing call: the key in the URL, and the batch embedded in the prompt (the
  rest of the prompt and the generation parameters are constants of the source).\<close>

record classification_call =
  call_key :: string
  call_emails :: "analysis_email list"

text \<open>What \<^verbatim>\<open>fetch\<close> resolves to: the status (a final status, which \<^verbatim>\<open>new Response\<close>
  accepts when a handler passes it on), and what \<^verbatim>\<open>.json()\<close> gives (\<open>None\<close>: it throws).\<close>

record 'a http_response =
  http_status :: nat
  http_json :: "'a option"

definition ok :: "'a http_response \<Rightarrow> bool" where
  "ok r = (200 \<le> http_status r \<and> http_status r \<le> 299)"

text \<open>The world of \<^verbatim>\<open>gmail-analyze\<close>: the environment variable, the classification service
  (\<open>None\<close>: \<^verbatim>\<open>fetch\<close> rejects) and the runtime's \<^verbatim>\<open>JSON.parse\<close> (\<open>None\<close>: it throws).\<close>

record analyze_world =
  GEMINI_API_KEY :: "string option"
  gemini :: "classification_call \<Rightarrow> jsval http_response option"
  JSON_parse :: "string \<Rightarrow> jsval option"

text \<open>The body of a \<^verbatim>\<open>Response\<close>: none (pre-flight), \<^verbatim>\<open>{ error: '...' }\<close> with a message
  written in the source, \<^verbatim>\<open>{ error: error.message }\<close> of the \<^verbatim>\<open>catch\<close>, or the result
  (\<^verbatim>\<open>{ prioritizedEmails }\<close>, \<^verbatim>\<open>{ messages }\<close>). The headers are the same on every
  response and are left out.\<close>

datatype 'a reply_body =
    NoBody
  | ErrorMessage string
  | CaughtMessage js_error
  | Success 'a

type_synonym analyze_body = "prioritized_email list reply_body"

record 'b response =
  status :: nat
  json_body :: 'b

section \<open>gmail-analyze: the handler\<close>

text \<open>\<^verbatim>\<open>emails.slice(0, 100).map(...)\<close>, with
  \<^verbatim>\<open>body: email.body?.substring(0, 200) || email.snippet\<close>.\<close>

definition for_analysis :: "email \<Rightarrow> analysis_email" where
  "for_analysis email =
     \<lparr> a_id = id' email, a_subject = subject email, a_from = from' email,
       a_snippet = snippet email,
       a_body = (case body email of None \<Rightarrow> snippet email
                 | Some b \<Rightarrow> if take 200 b = [] then snippet email else take 200 b) \<rparr>"

definition emailsForAnalysis :: "email list \<Rightarrow> analysis_email list" where
  "emailsForAnalysis es = map for_analysis (take 100 es)"

text \<open>\<^verbatim>\<open>geminiData.candidates?.[0]?.content?.parts?.[0]?.text\<close>; reading \<^verbatim>\<open>candidates\<close> of
  \<^verbatim>\<open>null\<close> throws.\<close>

definition responseText :: "jsval \<Rightarrow> js_error + jsval option" where
  "responseText geminiData =
     (if geminiData = JNull then Inl TypeError
      else Inr (opt_chain (opt_chain (opt_chain (opt_chain (opt_chain
                  (get_prop ''candidates'' geminiData) elem0) (get_prop ''content''))
                  (get_prop ''parts'')) elem0) (get_prop ''text'')))"

text \<open>
  \<^verbatim>\<open>responseText.match(/\[[\s\S]*\]/)\<close>. The engine tries each start position from the left;
  at a start it needs \<^verbatim>\<open>[\<close>, then takes as many characters as it can (\<open>upto_last_close\<close>
  prefers the match in the rest of the text and falls back to the bracket at hand) and needs
  \<^verbatim>\<open>]\<close>.
\<close>

fun upto_last_close :: "string \<Rightarrow> string option" where
  "upto_last_close [] = None"
| "upto_last_close (c # cs) =
     (case upto_last_close cs of
        Some m \<Rightarrow> Some (c # m)
      | None \<Rightarrow> if c = CHR '']'' then Some [c] else None)"

fun jsonMatch :: "string \<Rightarrow> string option" where
  "jsonMatch [] = None"
| "jsonMatch (c # cs) =
     (case (if c = CHR ''['' then upto_last_close cs else None) of
        Some m \<Rightarrow> Some (c # m)
      | None \<Rightarrow> jsonMatch cs)"

definition jsonString :: "string \<Rightarrow> string" where
  "jsonString text = (case jsonMatch text of Some m \<Rightarrow> m | None \<Rightarrow> text)"

text \<open>The inner \<^verbatim>\<open>try\<close>: a reply that is not a string cannot be matched, and the
  TypeError is caught with the parse errors.\<close>

definition analysisResults :: "analyze_world \<Rightarrow> jsval \<Rightarrow> js_error + jsval" where
  "analysisResults w rt =
     (case (case rt of JStr text \<Rightarrow> JSON_parse w (jsonString text) | _ \<Rightarrow> None) of
        None \<Rightarrow> Inl (Error ''Invalid response format from Gemini'')
      | Some v \<Rightarrow> Inr v)"

text \<open>\<^verbatim>\<open>results.find(result => result.id === email.id)\<close>; reading \<^verbatim>\<open>id\<close> of \<^verbatim>\<open>null\<close> throws.\<close>

fun find_result :: "string \<Rightarrow> jsval list \<Rightarrow> js_error + jsval option" where
  "find_result i [] = Inr None"
| "find_result i (r # rs) =
     (if r = JNull then Inl TypeError
      else if get_prop ''id'' r = Some (JStr i) then Inr (Some r)
      else find_result i rs)"

text \<open>The object the callback of \<^verbatim>\<open>emails.map\<close> returns, for the \<^verbatim>\<open>analysis\<close> found:
  \<^verbatim>\<open>{ ...email, priority: analysis?.priority || 'medium',
     reasoning: analysis?.reasoning || 'No analysis available', gmailUrl: `...${email.id}` }\<close>\<close>

definition prioritized :: "jsval option \<Rightarrow> email \<Rightarrow> prioritized_email" where
  "prioritized analysis email =
     email.extend email
       (prioritized_email.fields
          (or_default (opt_chain analysis (get_prop ''priority'')) (JStr ''medium''))
          (or_default (opt_chain analysis (get_prop ''reasoning''))
             (JStr ''No analysis available''))
          (''https://mail.google.com/mail/u/0/#inbox/'' @ id' email))"

text \<open>The callback of \<^verbatim>\<open>emails.map\<close>. A value that is not an array has no \<^verbatim>\<open>find\<close>.\<close>

definition prioritize :: "jsval \<Rightarrow> email \<Rightarrow> js_error + prioritized_email" where
  "prioritize results email =
     (case results of
        JArr rs \<Rightarrow>
          bind_err (find_result (id' email) rs) (\<lambda>analysis. Inr (prioritized analysis email))
      | _ \<Rightarrow> Inl TypeError)"

definition prioritizedEmails :: "jsval \<Rightarrow> email list \<Rightarrow> js_error + prioritized_email list" where
  "prioritizedEmails results es = map_err (prioritize results) es"

text \<open>
  \<^verbatim>\<open>const priorityOrder = { high: 3, medium: 2, low: 1 }\<close>, read at a key, as the
  subtraction of the comparator sees it: \<open>None\<close> is NaN, which is what a missing key
  (\<^verbatim>\<open>undefined\<close>) and a key found on \<^verbatim>\<open>Object.prototype\<close> (a function or an object)
  both convert to.
\<close>

definition priorityOrder :: "string \<Rightarrow> int option" where
  "priorityOrder k =
     (if k = ''high'' then Some 3 else if k = ''medium'' then Some 2
      else if k = ''low'' then Some 1 else None)"

text \<open>\<^verbatim>\<open>(a, b) => priorityOrder[b.priority] - priorityOrder[a.priority]\<close>: the operand of
  \<open>b\<close> is evaluated first, and a subtraction with NaN is NaN.\<close>

definition compare_priority ::
  "prioritized_email \<Rightarrow> prioritized_email \<Rightarrow> js_error + int option" where
  "compare_priority a b =
     bind_err (to_string (priority b)) (\<lambda>kb.
     bind_err (to_string (priority a)) (\<lambda>ka.
       Inr (case (priorityOrder kb, priorityOrder ka) of
              (Some m, Some n) \<Rightarrow> Some (m - n)
            | _ \<Rightarrow> None)))"

text \<open>
  \<^verbatim>\<open>Array.prototype.sort(comparefn)\<close>: a stable sort; a comparator result of NaN counts as
  \<open>0\<close>; an exception of the comparator ends the sort. It is embedded as insertion from the
  right: an element goes before the first later element it does not compare greater than.
  For a consistent comparator this is the order ECMAScript prescribes. For an inconsistent
  one (a NaN next to numbers, which a priority outside \<^verbatim>\<open>high\<close>, \<^verbatim>\<open>medium\<close>, \<^verbatim>\<open>low\<close>
  gives) ECMAScript leaves the order to the engine; the model fixes one rearrangement, and
  the engine may return another one. Statements about such lists use only that the result
  is a rearrangement of the input.
\<close>

fun insert_by :: "('a \<Rightarrow> 'a \<Rightarrow> js_error + int option) \<Rightarrow> 'a \<Rightarrow> 'a list \<Rightarrow> js_error + 'a list" where
  "insert_by cmp x [] = Inr [x]"
| "insert_by cmp x (y # ys) =
     (case cmp x y of
        Inl e \<Rightarrow> Inl e
      | Inr v \<Rightarrow>
          if (case v of None \<Rightarrow> 0 | Some n \<Rightarrow> n) \<le> 0 then Inr (x # y # ys)
          else (case insert_by cmp x ys of Inl e \<Rightarrow> Inl e | Inr zs \<Rightarrow> Inr (y # zs)))"

fun sort_by :: "('a \<Rightarrow> 'a \<Rightarrow> js_error + int option) \<Rightarrow> 'a list \<Rightarrow> js_error + 'a list" where
  "sort_by cmp [] = Inr []"
| "sort_by cmp (x # xs) =
     (case sort_by cmp xs of Inl e \<Rightarrow> Inl e | Inr ys \<Rightarrow> insert_by cmp x ys)"

text \<open>From the check of \<^verbatim>\<open>geminiResponse.ok\<close> to the success response (inside the outer
  \<^verbatim>\<open>try\<close>: \<open>Inl\<close> is an exception on its way to the \<^verbatim>\<open>catch\<close>).\<close>

definition analyze_reply ::
  "analyze_world \<Rightarrow> email list \<Rightarrow> jsval http_response \<Rightarrow> js_error + analyze_body response" where
  "analyze_reply w es geminiResponse =
     (if \<not> ok geminiResponse then
        Inr \<lparr> status = http_status geminiResponse,
              json_body = ErrorMessage ''Failed to analyze emails with Gemini'' \<rparr>
      else
        (case http_json geminiResponse of
           None \<Rightarrow> Inl SyntaxError
         | Some geminiData \<Rightarrow>
             bind_err (responseText geminiData) (\<lambda>rt.
               (case rt of
                  None \<Rightarrow> Inl (Error ''No response from Gemini'')
                | Some t \<Rightarrow>
                    if \<not> truthy t then Inl (Error ''No response from Gemini'')
                    else
                      bind_err (analysisResults w t) (\<lambda>results.
                      bind_err (prioritizedEmails results es) (\<lambda>merged.
                      bind_err (sort_by compare_priority merged) (\<lambda>sorted.
                        Inr \<lparr> status = 200, json_body = Success sorted \<rparr>)))))))"

text \<open>The body of the outer \<^verbatim>\<open>try\<close>, with the classification calls made. The request body
  is \<open>Inl e\<close> when \<^verbatim>\<open>await req.json()\<close> or the destructuring throws. The test
  \<^verbatim>\<open>!accessToken || !emails || emails.length === 0\<close> is written with the case of a missing
  \<^verbatim>\<open>emails\<close> first; the three tests have no side effect, so their order makes no
  difference.\<close>

definition analyze_try ::
  "analyze_world \<Rightarrow> js_error + analyze_request \<Rightarrow>
     (js_error + analyze_body response) \<times> classification_call list" where
  "analyze_try w rq =
     (case rq of
        Inl e \<Rightarrow> (Inl e, [])
      | Inr r \<Rightarrow>
          (case GEMINI_API_KEY w of
             None \<Rightarrow>
               (Inr \<lparr> status = 500, json_body = ErrorMessage ''Gemini API key not configured'' \<rparr>, [])
           | Some geminiApiKey \<Rightarrow>
               if geminiApiKey = [] then
                 (Inr \<lparr> status = 500, json_body = ErrorMessage ''Gemini API key not configured'' \<rparr>, [])
               else
                 (case emails r of
                    None \<Rightarrow>
                      (Inr \<lparr> status = 400,
                             json_body = ErrorMessage ''Access token and emails are required'' \<rparr>, [])
                  | Some es \<Rightarrow>
                      if \<not> present (accessToken r) \<or> es = [] then
                        (Inr \<lparr> status = 400,
                               json_body = ErrorMessage ''Access token and emails are required'' \<rparr>, [])
                      else
                        (let call = \<lparr> call_key = geminiApiKey, call_emails = emailsForAnalysis es \<rparr>
                         in ((case gemini w call of
                                None \<Rightarrow> Inl FetchFailed
                              | Some geminiResponse \<Rightarrow> analyze_reply w es geminiResponse),
                             [call])))))"

text \<open>The outer \<^verbatim>\<open>catch\<close>: status 500 with the message of the exception.\<close>

definition analyze ::
  "analyze_world \<Rightarrow> js_error + analyze_request \<Rightarrow> analyze_body response \<times> classification_call list" where
  "analyze w rq =
     (case analyze_try w rq of
        (Inl e, calls) \<Rightarrow> (\<lparr> status = 500, json_body = CaughtMessage e \<rparr>, calls)
      | (Inr resp, calls) \<Rightarrow> (resp, calls))"

text \<open>The handler: the pre-flight answer (a \<^verbatim>\<open>Response\<close> without status has status 200),
  or the operation.\<close>

record 'a request =
  req_method :: string
  req_json :: "js_error + 'a"

definition analyze_handler ::
  "analyze_world \<Rightarrow> analyze_request request \<Rightarrow> analyze_body response \<times> classification_call list" where
  "analyze_handler w req =
     (if req_method req = ''OPTIONS'' then (\<lparr> status = 200, json_body = NoBody \<rparr>, [])
      else analyze w (req_json req))"

section \<open>gmail-fetch: data\<close>

text \<open>The message resource of the mailbox service, typed by its schema: a payload has
  headers (name and value), a body with an optional base64url blob, and parts, each with a
  MIME type, a body and parts of its own.\<close>

record blob =
  data :: "string option"

datatype part = Part (mimeType: string) (part_body: "blob option") (part_parts: "part list")

record payload =
  payload_headers :: "(string \<times> string) list option"
  payload_body :: "blob option"
  payload_parts :: "part list option"

record detail =
  detail_snippet :: "string option"
  detail_payload :: "payload option"

text \<open>An entry of \<^verbatim>\<open>emailList.messages\<close>, and the listing.\<close>

record message_ref =
  ref_id :: string

record email_list =
  messages :: "message_ref list option"

text \<open>The record the hydration returns.\<close>

record message =
  msg_id :: string
  msg_subject :: string
  msg_from :: string
  msg_date :: string
  msg_snippet :: string
  msg_body :: string

record gmail_request =
  gmail_accessToken :: "string option"
  maxResults :: "int option"

text \<open>The mailbox service: the listing call (token, \<^verbatim>\<open>maxResults\<close>) and the detail call
  (token, message id). \<open>None\<close>: \<^verbatim>\<open>fetch\<close> rejects.\<close>

record gmail_world =
  list_messages :: "string \<Rightarrow> int \<Rightarrow> email_list http_response option"
  get_message :: "string \<Rightarrow> string \<Rightarrow> detail http_response option"

type_synonym gmail_body = "message list reply_body"

section \<open>gmail-fetch: the body decoder\<close>

text \<open>
  \<^verbatim>\<open>atob\<close> of the runtime (the forgiving-base64 decode of the WHATWG Infra standard):
  ASCII whitespace is removed; if the length is then a multiple of four, one or two
  trailing \<^verbatim>\<open>=\<close> are removed; a length of 1 modulo 4 or a character outside the alphabet
  is an InvalidCharacterError; each character gives six bits, each 24 bits three bytes, and
  of 12 or 18 remaining bits the last 4 or 2 are dropped.
\<close>

definition base64_alphabet :: string where
  "base64_alphabet = ''ABCDEFGHIJKLMNOPQRSTUVWXYZabcdefghijklmnopqrstuvwxyz0123456789+/''"

fun position :: "'a \<Rightarrow> 'a list \<Rightarrow> nat option" where
  "position c [] = None"
| "position c (x # xs) = (if c = x then Some 0 else map_option Suc (position c xs))"

fun sextets :: "string \<Rightarrow> nat list option" where
  "sextets [] = Some []"
| "sextets (c # cs) =
     (case position c base64_alphabet of
        None \<Rightarrow> None
      | Some n \<Rightarrow> map_option ((#) n) (sextets cs))"

text \<open>The character with a given byte value, from its bits.\<close>

definition byte :: "nat \<Rightarrow> char" where
  "byte n = Char (odd n) (odd (n div 2)) (odd (n div 4)) (odd (n div 8))
              (odd (n div 16)) (odd (n div 32)) (odd (n div 64)) (odd (n div 128))"

fun octets :: "nat list \<Rightarrow> string" where
  "octets (a # b # c # d # rest) =
     byte (a * 4 + b div 16) # byte (b mod 16 * 16 + c div 4) # byte (c mod 4 * 64 + d)
       # octets rest"
| "octets [a, b, c] = [byte (a * 4 + b div 16), byte (b mod 16 * 16 + c div 4)]"
| "octets [a, b] = [byte (a * 4 + b div 16)]"
| "octets rest = []"

definition ascii_whitespace :: "char \<Rightarrow> bool" where
  "ascii_whitespace c = (c \<in> {CHR 0x09, CHR 0x0A, CHR 0x0C, CHR 0x0D, CHR '' ''})"

definition strip_padding :: "string \<Rightarrow> string" where
  "strip_padding d =
     (if length d mod 4 \<noteq> 0 then d
      else if 2 \<le> length d \<and> drop (length d - 2) d = ''=='' then take (length d - 2) d
      else if 1 \<le> length d \<and> drop (length d - 1) d = ''='' then take (length d - 1) d
      else d)"

definition atob :: "string \<Rightarrow> js_error + string" where
  "atob input =
     (let d = strip_padding (filter (\<lambda>c. \<not> ascii_whitespace c) input)
      in if length d mod 4 = 1 then Inl InvalidCharacterError
         else (case sextets d of
                 None \<Rightarrow> Inl InvalidCharacterError
               | Some ns \<Rightarrow> Inr (octets ns)))"

text \<open>\<^verbatim>\<open>data.replace(/-/g, '+').replace(/_/g, '/')\<close>\<close>

definition base64url_to_base64 :: "string \<Rightarrow> string" where
  "base64url_to_base64 d =
     map (\<lambda>c. if c = CHR ''_'' then CHR ''/'' else c)
       (map (\<lambda>c. if c = CHR ''-'' then CHR ''+'' else c) d)"

definition decode_blob :: "string \<Rightarrow> js_error + string" where
  "decode_blob d = atob (base64url_to_base64 d)"

text \<open>\<^verbatim>\<open>part.body?.data\<close> and \<^verbatim>\<open>detail.payload?.body?.data\<close>\<close>

definition blob_data :: "blob option \<Rightarrow> string option" where
  "blob_data b = (case b of None \<Rightarrow> None | Some x \<Rightarrow> data x)"

text \<open>A blob that passes a truthiness test: present and not the empty string.\<close>

definition truthy_data :: "string option \<Rightarrow> string option" where
  "truthy_data v = (case v of None \<Rightarrow> None | Some d \<Rightarrow> if d = [] then None else Some d)"

text \<open>The \<^verbatim>\<open>for\<close> loop over \<^verbatim>\<open>detail.payload.parts\<close>, with its \<^verbatim>\<open>break\<close>; \<^verbatim>\<open>body\<close> starts
  as the empty string.\<close>

fun scan_parts :: "part list \<Rightarrow> js_error + string" where
  "scan_parts [] = Inr []"
| "scan_parts (p # ps) =
     (if mimeType p = ''text/plain'' then
        (case truthy_data (blob_data (part_body p)) of
           Some d \<Rightarrow> decode_blob d
         | None \<Rightarrow> scan_parts ps)
      else scan_parts ps)"

text \<open>The variable \<^verbatim>\<open>body\<close> after the \<^verbatim>\<open>if\<close> / \<^verbatim>\<open>else if\<close> (an array, empty or not, is truthy).\<close>

definition body_of :: "payload option \<Rightarrow> js_error + string" where
  "body_of pl =
     (case truthy_data (case pl of None \<Rightarrow> None | Some p \<Rightarrow> blob_data (payload_body p)) of
        Some d \<Rightarrow> decode_blob d
      | None \<Rightarrow>
          (case (case pl of None \<Rightarrow> None | Some p \<Rightarrow> payload_parts p) of
             None \<Rightarrow> Inr []
           | Some ps \<Rightarrow> scan_parts ps))"

text \<open>\<^verbatim>\<open>body.substring(0, 500) + (body.length > 500 ? '...' : '')\<close>\<close>

definition clip :: "string \<Rightarrow> string" where
  "clip b = take 500 b @ (if length b > 500 then ''...'' else [])"

section \<open>gmail-fetch: the handler\<close>

text \<open>\<^verbatim>\<open>headers.find(h => h.name === n)?.value || d\<close>\<close>

definition header_value :: "string \<Rightarrow> (string \<times> string) list \<Rightarrow> string \<Rightarrow> string" where
  "header_value n hs d =
     (case find (\<lambda>h. fst h = n) hs of
        None \<Rightarrow> d
      | Some h \<Rightarrow> if snd h = [] then d else snd h)"

text \<open>\<^verbatim>\<open>xs.slice(0, k)\<close> for an integer \<open>k\<close>: a negative \<open>k\<close> counts from the end.\<close>

definition slice0 :: "int \<Rightarrow> 'a list \<Rightarrow> 'a list" where
  "slice0 k xs = (if k < 0 then take (nat (int (length xs) + k)) xs else take (nat k) xs)"

text \<open>The callback of \<^verbatim>\<open>emailList.messages.slice(0, maxResults).map\<close>: \<open>Inr None\<close> is the
  \<^verbatim>\<open>null\<close> of a detail call that did not succeed, \<open>Inl\<close> a rejection of the callback.\<close>

definition hydrate :: "gmail_world \<Rightarrow> string \<Rightarrow> message_ref \<Rightarrow> js_error + message option" where
  "hydrate w token m =
     (case get_message w token (ref_id m) of
        None \<Rightarrow> Inl FetchFailed
      | Some detailResponse \<Rightarrow>
          if \<not> ok detailResponse then Inr None
          else
            (case http_json detailResponse of
               None \<Rightarrow> Inl SyntaxError
             | Some detail \<Rightarrow>
                 (let headers = (case (case detail_payload detail of None \<Rightarrow> None
                                       | Some p \<Rightarrow> payload_headers p) of
                                   None \<Rightarrow> [] | Some hs \<Rightarrow> hs)
                  in bind_err (body_of (detail_payload detail)) (\<lambda>body.
                       Inr (Some \<lparr> msg_id = ref_id m,
                                   msg_subject = header_value ''Subject'' headers ''No Subject'',
                                   msg_from = header_value ''From'' headers ''Unknown Sender'',
                                   msg_date = header_value ''Date'' headers [],
                                   msg_snippet = (case detail_snippet detail of
                                                    None \<Rightarrow> [] | Some s \<Rightarrow> s),
                                   msg_body = clip body \<rparr>)))))"

text \<open>\<^verbatim>\<open>emailDetails.filter(email => email !== null)\<close>\<close>

definition validEmails :: "message option list \<Rightarrow> message list" where
  "validEmails emailDetails = List.map_filter (\<lambda>email. email) emailDetails"

text \<open>The body of the \<^verbatim>\<open>try\<close>. \<^verbatim>\<open>Promise.all\<close> rejects when a callback rejects; the model
  reports the rejection of the first message in listing order (with several rejections the
  engine reports the one that settled first; the response differs in the message only).\<close>

definition gmail_try :: "gmail_world \<Rightarrow> js_error + gmail_request \<Rightarrow> js_error + gmail_body response" where
  "gmail_try w rq =
     (case rq of
        Inl e \<Rightarrow> Inl e
      | Inr r \<Rightarrow>
          (case gmail_accessToken r of
             None \<Rightarrow> Inr \<lparr> status = 400, json_body = ErrorMessage ''Access token is required'' \<rparr>
           | Some token \<Rightarrow>
               if token = [] then
                 Inr \<lparr> status = 400, json_body = ErrorMessage ''Access token is required'' \<rparr>
               else
               (let cap = (case maxResults r of None \<Rightarrow> 10 | Some k \<Rightarrow> k)
                in case list_messages w token cap of
                     None \<Rightarrow> Inl FetchFailed
                   | Some gmailResponse \<Rightarrow>
                       if \<not> ok gmailResponse then
                         Inr \<lparr> status = http_status gmailResponse,
                               json_body = ErrorMessage ''Failed to fetch emails from Gmail'' \<rparr>
                       else
                         (case http_json gmailResponse of
                            None \<Rightarrow> Inl SyntaxError
                          | Some emailList \<Rightarrow>
                              (case messages emailList of
                                 None \<Rightarrow> Inr \<lparr> status = 200, json_body = Success [] \<rparr>
                               | Some ms \<Rightarrow>
                                   bind_err (map_err (hydrate w token) (slice0 cap ms))
                                     (\<lambda>emailDetails.
                                        Inr \<lparr> status = 200,
                                              json_body = Success (validEmails emailDetails) \<rparr>))))))"

definition gmail_fetch :: "gmail_world \<Rightarrow> js_error + gmail_request \<Rightarrow> gmail_body response" where
  "gmail_fetch w rq =
     (case gmail_try w rq of
        Inl e \<Rightarrow> \<lparr> status = 500, json_body = CaughtMessage e \<rparr>
      | Inr resp \<Rightarrow> resp)"

definition gmail_handler :: "gmail_world \<Rightarrow> gmail_request request \<Rightarrow> gmail_body response" where
  "gmail_handler w req =
     (if req_method req = ''OPTIONS'' then \<lparr> status = 200, json_body = NoBody \<rparr>
      else gmail_fetch w (req_json req))"

text \<open>
  The reading of the parts the specification words: a depth-first scan of the whole tree of
  parts for the first part of type \<^verbatim>\<open>text/plain\<close> that carries a blob. It is here to be
  compared with \<open>scan_parts\<close>, which is what the source does.
\<close>

fun spec_depth_first_blob :: "part \<Rightarrow> string option"
  and spec_depth_first_blobs :: "part list \<Rightarrow> string option" where
  "spec_depth_first_blob (Part mt b subs) =
     (if mt = ''text/plain'' \<and> truthy_data (blob_data b) \<noteq> None then blob_data b
      else spec_depth_first_blobs subs)"
| "spec_depth_first_blobs [] = None"
| "spec_depth_first_blobs (p # ps) =
     (case spec_depth_first_blob p of
        Some d \<Rightarrow> Some d
      | None \<Rightarrow> spec_depth_first_blobs ps)"

section \<open>Notions of the specification used in the statements\<close>

text \<open>The three priorities of the specification, and their ordinal: high 3, medium 2,
  low 1 (0 for any other value; the statements that use it exclude other values).\<close>

definition recognised :: "jsval \<Rightarrow> bool" where
  "recognised p = (p = JStr ''high'' \<or> p = JStr ''medium'' \<or> p = JStr ''low'')"

definition spec_tier :: "jsval \<Rightarrow> int" where
  "spec_tier p =
     (if p = JStr ''high'' then 3 else if p = JStr ''medium'' then 2
      else if p = JStr ''low'' then 1 else 0)"

text \<open>A result matches an email when its \<^verbatim>\<open>id\<close> is the string that is the email's id.\<close>

definition matches :: "string \<Rightarrow> jsval \<Rightarrow> bool" where
  "matches i r = (get_prop ''id'' r = Some (JStr i))"

text \<open>A part of type \<^verbatim>\<open>text/plain\<close> that carries a blob (one that is not empty).\<close>

definition plain_with_blob :: "part \<Rightarrow> bool" where
  "plain_with_blob q =
     (mimeType q = ''text/plain'' \<and> truthy_data (blob_data (part_body q)) \<noteq> None)"

text \<open>The blob the body of a message is taken from, read off the payload: the top-level
  blob if there is one (not empty), else the blob of the first top-level part of type
  \<^verbatim>\<open>text/plain\<close> that carries one, else none.\<close>

definition selected_blob :: "payload option \<Rightarrow> string option" where
  "selected_blob pl =
     (case pl of
        None \<Rightarrow> None
      | Some p \<Rightarrow>
          (case truthy_data (blob_data (payload_body p)) of
             Some d \<Rightarrow> Some d
           | None \<Rightarrow>
               (case payload_parts p of
                  None \<Rightarrow> None
                | Some ps \<Rightarrow>
                    (case find plain_with_blob ps of
                       None \<Rightarrow> None
                     | Some q \<Rightarrow> blob_data (part_body q)))))"

text \<open>A blob is valid base64url: after the URL-safe mapping, and whitespace and padding
  aside, its length is not 1 modulo 4 and all its characters are in the alphabet.\<close>

definition valid_base64url :: "string \<Rightarrow> bool" where
  "valid_base64url d =
     (length (strip_padding (filter (\<lambda>c. \<not> ascii_whitespace c) (base64url_to_base64 d)))
        mod 4 \<noteq> 1
      \<and> set (strip_padding (filter (\<lambda>c. \<not> ascii_whitespace c) (base64url_to_base64 d)))
          \<subseteq> set base64_alphabet)"

text \<open>The detail call for a message returns a response that is not a success.\<close>

definition fetch_fails :: "gmail_world \<Rightarrow> string \<Rightarrow> message_ref \<Rightarrow> bool" where
  "fetch_fails w token m =
     (case get_message w token (ref_id m) of None \<Rightarrow> False | Some dr \<Rightarrow> \<not> ok dr)"

text \<open>The detail call for a message returns a success response with a readable JSON body
  whose selected blob, if it has one, is valid base64url.\<close>

definition fetch_decodes :: "gmail_world \<Rightarrow> string \<Rightarrow> message_ref \<Rightarrow> bool" where
  "fetch_decodes w token m =
     (case get_message w token (ref_id m) of
        None \<Rightarrow> False
      | Some dr \<Rightarrow>
          ok dr \<and>
          (case http_json dr of
             None \<Rightarrow> False
           | Some dt \<Rightarrow>
               (case selected_blob (detail_payload dt) of
                  None \<Rightarrow> True
                | Some d \<Rightarrow> valid_base64url d)))"

section \<open>Sample data\<close>

definition email_a :: email where
  "email_a = \<lparr> id' = ''a'', subject = ''Invoice due'', from' = ''billing@example.com'',
               date = ''Mon, 2 Nov 2026 09:00:00 +0000'', snippet = ''Please pay'',
               body = Some ''Please pay the invoice by Friday.'' \<rparr>"

text \<open>An email whose body has 250 characters.\<close>

definition long_email :: email where
  "long_email = \<lparr> id' = ''d'', subject = ''Report'', from' = ''boss@example.com'',
                  date = ''Mon, 2 Nov 2026 12:00:00 +0000'', snippet = ''Quarterly report'',
                  body = Some (replicate 250 (CHR ''x'')) \<rparr>"

definition email_b :: email where
  "email_b = \<lparr> id' = ''b'', subject = ''Lunch'', from' = ''friend@example.com'',
               date = ''Mon, 2 Nov 2026 10:00:00 +0000'', snippet = ''Lunch today?'',
               body = None \<rparr>"

definition email_c :: email where
  "email_c = \<lparr> id' = ''c'', subject = ''Newsletter'', from' = ''news@example.com'',
               date = ''Mon, 2 Nov 2026 11:00:00 +0000'', snippet = ''This week'',
               body = Some [] \<rparr>"

definition sample_reply_text :: string where
  \<open>sample_reply_text =
     ''Here is the result:\<newline>[{"id":"a","priority":"high","reasoning":"urgent"}]\<newline>Thanks''\<close>

definition sample_span :: string where
  \<open>sample_span = ''[{"id":"a","priority":"high","reasoning":"urgent"}]''\<close>

definition result_a :: jsval where
  "result_a = JObj [(''id'', JStr ''a''), (''priority'', JStr ''high''),
                    (''reasoning'', JStr ''urgent'')]"

definition sample_results :: jsval where
  "sample_results = JArr [result_a]"

text \<open>A reply whose result for \<open>a\<close> carries a priority outside the three.\<close>

definition urgent_result :: jsval where
  "urgent_result = JObj [(''id'', JStr ''a''), (''priority'', JStr ''urgent''),
                         (''reasoning'', JStr ''deadline'')]"

text \<open>A result for \<open>a\<close> without priority.\<close>

definition bare_result :: jsval where
  "bare_result = JObj [(''id'', JStr ''a''), (''reasoning'', JStr ''unsure'')]"

text \<open>A stand-in for \<^verbatim>\<open>JSON.parse\<close> that knows the sample span and rejects any other text.\<close>

definition sample_parse :: "string \<Rightarrow> jsval option" where
  "sample_parse s = (if s = sample_span then Some sample_results else None)"

definition gemini_data :: "string \<Rightarrow> jsval" where
  "gemini_data text =
     JObj [(''candidates'',
            JArr [JObj [(''content'',
                         JObj [(''parts'', JArr [JObj [(''text'', JStr text)]])])]])]"

definition sample_gemini :: "classification_call \<Rightarrow> jsval http_response option" where
  "sample_gemini call =
     Some \<lparr> http_status = 200, http_json = Some (gemini_data sample_reply_text) \<rparr>"

definition garbled_gemini :: "classification_call \<Rightarrow> jsval http_response option" where
  "garbled_gemini call =
     Some \<lparr> http_status = 200, http_json = Some (gemini_data ''I cannot help with that'') \<rparr>"

definition sample_world :: analyze_world where
  "sample_world =
     \<lparr> GEMINI_API_KEY = Some ''key'', gemini = sample_gemini, JSON_parse = sample_parse \<rparr>"

definition garbled_world :: analyze_world where
  "garbled_world =
     \<lparr> GEMINI_API_KEY = Some ''key'', gemini = garbled_gemini, JSON_parse = sample_parse \<rparr>"

definition unconfigured_world :: analyze_world where
  "unconfigured_world =
     \<lparr> GEMINI_API_KEY = None, gemini = sample_gemini, JSON_parse = sample_parse \<rparr>"

definition sample_request :: analyze_request where
  "sample_request = \<lparr> accessToken = Some ''token'', emails = Some [email_b, email_a, email_c] \<rparr>"

definition tokenless_request :: analyze_request where
  "tokenless_request = \<lparr> accessToken = None, emails = Some [email_a] \<rparr>"

definition sample_post :: "analyze_request request" where
  "sample_post = \<lparr> req_method = ''POST'', req_json = Inr tokenless_request \<rparr>"

text \<open>Messages: \<^verbatim>\<open>aGk=\<close> is the base64 of \<^verbatim>\<open>hi\<close>; \<^verbatim>\<open>!\<close> is not base64.\<close>

definition plain_part :: part where
  "plain_part = Part ''text/plain'' (Some \<lparr> data = Some ''aGk='' \<rparr>) []"

definition html_part :: part where
  "html_part = Part ''text/html'' (Some \<lparr> data = Some ''PGI-aGk8L2I-'' \<rparr>) []"

definition flat_payload :: payload where
  "flat_payload =
     \<lparr> payload_headers = Some [(''From'', ''friend@example.com''), (''Subject'', ''Hello'')],
       payload_body = Some \<lparr> data = None \<rparr>,
       payload_parts = Some [html_part, plain_part] \<rparr>"

text \<open>\<^verbatim>\<open>aGVsbG8gd29ybGQ\<close> is the base64 of \<^verbatim>\<open>hello world\<close>, without padding.\<close>

definition inline_payload :: payload where
  "inline_payload =
     \<lparr> payload_headers = Some [(''Subject'', ''Hello'')],
       payload_body = Some \<lparr> data = Some ''aGVsbG8gd29ybGQ'' \<rparr>,
       payload_parts = Some [plain_part] \<rparr>"

definition nested_payload :: payload where
  "nested_payload =
     \<lparr> payload_headers = Some [(''Subject'', ''Hello'')],
       payload_body = Some \<lparr> data = None \<rparr>,
       payload_parts = Some [Part ''multipart/alternative'' None [plain_part, html_part]] \<rparr>"

definition bad_payload :: payload where
  "bad_payload =
     \<lparr> payload_headers = Some [(''Subject'', ''Hello'')],
       payload_body = Some \<lparr> data = Some ''!'' \<rparr>,
       payload_parts = None \<rparr>"

definition sample_listing :: "string \<Rightarrow> int \<Rightarrow> email_list http_response option" where
  "sample_listing token cap =
     Some \<lparr> http_status = 200,
            http_json = Some \<lparr> messages = Some [\<lparr> ref_id = ''m1'' \<rparr>, \<lparr> ref_id = ''m2'' \<rparr>,
                                                \<lparr> ref_id = ''m3'' \<rparr>] \<rparr> \<rparr>"

text \<open>A mailbox where the detail call for \<open>m2\<close> answers 404.\<close>

definition sample_details :: "string \<Rightarrow> string \<Rightarrow> detail http_response option" where
  "sample_details token i =
     (if i = ''m2'' then Some \<lparr> http_status = 404, http_json = None \<rparr>
      else Some \<lparr> http_status = 200,
                  http_json = Some \<lparr> detail_snippet = Some ''hi'',
                                      detail_payload = Some flat_payload \<rparr> \<rparr>)"

text \<open>A mailbox where the body of \<open>m2\<close> is not base64.\<close>

definition bad_details :: "string \<Rightarrow> string \<Rightarrow> detail http_response option" where
  "bad_details token i =
     Some \<lparr> http_status = 200,
            http_json = Some \<lparr> detail_snippet = Some ''hi'',
                                detail_payload = Some (if i = ''m2'' then bad_payload
                                                       else flat_payload) \<rparr> \<rparr>"

text \<open>A mailbox where the detail call for \<open>m1\<close> answers 404 and the body of \<open>m2\<close> is not
  base64.\<close>

definition mixed_details :: "string \<Rightarrow> string \<Rightarrow> detail http_response option" where
  "mixed_details token i =
     (if i = ''m1'' then Some \<lparr> http_status = 404, http_json = None \<rparr>
      else Some \<lparr> http_status = 200,
                  http_json = Some \<lparr> detail_snippet = Some ''hi'',
                                      detail_payload = Some (if i = ''m2'' then bad_payload
                                                             else flat_payload) \<rparr> \<rparr>)"

definition mixed_mailbox :: gmail_world where
  "mixed_mailbox = \<lparr> list_messages = sample_listing, get_message = mixed_details \<rparr>"

definition sample_mailbox :: gmail_world where
  "sample_mailbox = \<lparr> list_messages = sample_listing, get_message = sample_details \<rparr>"

definition bad_mailbox :: gmail_world where
  "bad_mailbox = \<lparr> list_messages = sample_listing, get_message = bad_details \<rparr>"

definition sample_gmail_request :: gmail_request where
  "sample_gmail_request = \<lparr> gmail_accessToken = Some ''token'', maxResults = None \<rparr>"

section \<open>gmail-analyze: the order of the checks\<close>

text \<open>
  Claim C10. In the Analyze operation the check of the classification credential comes
  before the validation of the input: while \<^verbatim>\<open>GEMINI_API_KEY\<close> is unset or empty, every
  request (readable or not, with or without token and emails) is answered with status 500
  and no classification call is made, so the 400 branch cannot be reached. The same holds
  for the handler on every request that is not a pre-flight.
\<close>

theorem credential_check_precedes_validation:
  assumes "\<not> present (GEMINI_API_KEY w)"
  shows "status (fst (analyze w rq)) = 500 \<and> snd (analyze w rq) = []
    \<and> (req_method req \<noteq> ''OPTIONS'' \<longrightarrow>
          status (fst (analyze_handler w req)) = 500 \<and> snd (analyze_handler w req) = [])"
proof -
  have op: "status (fst (analyze w q)) = 500 \<and> snd (analyze w q) = []" for q
    using assms
    by (cases q; cases "GEMINI_API_KEY w")
       (simp_all add: analyze_def analyze_try_def present_def)
  show ?thesis
    using op [of rq] op [of "req_json req"] by (simp add: analyze_handler_def)
qed

text \<open>The theorem at a request without token, in a world without credential.\<close>

theorem credential_check_precedes_validation_witness:
  "\<not> present (GEMINI_API_KEY unconfigured_world)
   \<and> \<not> present (accessToken tokenless_request)
   \<and> status (fst (analyze unconfigured_world (Inr tokenless_request))) = 500
   \<and> snd (analyze unconfigured_world (Inr tokenless_request)) = []
   \<and> req_method sample_post \<noteq> ''OPTIONS''
   \<and> status (fst (analyze_handler unconfigured_world sample_post)) = 500"
  using credential_check_precedes_validation
          [of unconfigured_world "Inr tokenless_request" sample_post]
  by (simp add: unconfigured_world_def present_def sample_post_def tokenless_request_def)

text \<open>
  Claim C6, as stated, promises status 400 for every request without token or without
  emails. In a world without credential the request without token is answered with 500.
\<close>

theorem invalid_request_counterexample:
  "\<not> present (accessToken tokenless_request)
   \<and> fst (analyze unconfigured_world (Inr tokenless_request))
       = \<lparr> status = 500, json_body = ErrorMessage ''Gemini API key not configured'' \<rparr>"
  by (simp add: analyze_def analyze_try_def unconfigured_world_def present_def
        tokenless_request_def)

text \<open>
  Claim C6, amended. While the classification credential is configured, every Analyze
  request whose token is missing or empty, or whose list of emails is missing or empty, is
  answered with status 400 and the message \<^verbatim>\<open>Access token and emails are required\<close>, and
  no classification call is made.
\<close>

theorem invalid_request_when_configured:
  assumes "present (GEMINI_API_KEY w)"
    and "\<not> present (accessToken r) \<or> emails r = None \<or> emails r = Some []"
  shows "analyze w (Inr r)
           = (\<lparr> status = 400, json_body = ErrorMessage ''Access token and emails are required'' \<rparr>, [])
    \<and> (req_method req \<noteq> ''OPTIONS'' \<and> req_json req = Inr r \<longrightarrow>
          analyze_handler w req
            = (\<lparr> status = 400, json_body = ErrorMessage ''Access token and emails are required'' \<rparr>, []))"
proof -
  have "analyze w (Inr r)
           = (\<lparr> status = 400, json_body = ErrorMessage ''Access token and emails are required'' \<rparr>, [])"
    using assms
    by (cases "GEMINI_API_KEY w"; cases "emails r")
       (auto simp add: analyze_def analyze_try_def present_def)
  then show ?thesis by (simp add: analyze_handler_def)
qed

theorem invalid_request_when_configured_witness:
  "present (GEMINI_API_KEY sample_world)
   \<and> \<not> present (accessToken tokenless_request)
   \<and> analyze sample_world (Inr tokenless_request)
       = (\<lparr> status = 400, json_body = ErrorMessage ''Access token and emails are required'' \<rparr>, [])
   \<and> req_method sample_post \<noteq> ''OPTIONS'' \<and> req_json sample_post = Inr tokenless_request
   \<and> analyze_handler sample_world sample_post
       = (\<lparr> status = 400, json_body = ErrorMessage ''Access token and emails are required'' \<rparr>, [])"
  using invalid_request_when_configured [of sample_world tokenless_request sample_post]
  by (simp add: sample_world_def present_def sample_post_def tokenless_request_def)

section \<open>Lemmas on the building blocks\<close>

lemma map_err_Inr_D:
  "map_err f xs = Inr ys \<Longrightarrow> list_all2 (\<lambda>x y. f x = Inr y) xs ys"
  by (induction xs arbitrary: ys) (auto split: sum.splits)

lemma map_err_total:
  assumes "\<And>x. x \<in> set xs \<Longrightarrow> f x = Inr (g x)"
  shows "map_err f xs = Inr (map g xs)"
  using assms by (induction xs) simp_all

lemma map_err_Inl:
  assumes "x \<in> set xs" and "f x = Inl e"
  shows "\<exists>e'. map_err f xs = Inl e'"
  using assms by (induction xs) (auto split: sum.splits)

lemma find_first:
  assumes "rs = pre @ r # post" and "\<forall>x \<in> set pre. \<not> P x" and "P r"
  shows "find P rs = Some r"
  using assms(2) unfolding assms(1) by (induction pre) (simp_all add: assms(3))

lemma find_result_no_null:
  "JNull \<notin> set rs \<Longrightarrow> find_result i rs = Inr (find (matches i) rs)"
  by (induction rs) (auto simp add: matches_def)

lemma prioritize_no_null:
  "JNull \<notin> set rs \<Longrightarrow>
     prioritize (JArr rs) e = Inr (prioritized (find (matches (id' e)) rs) e)"
  by (simp add: prioritize_def find_result_no_null bind_err_def)

lemma prioritizedEmails_no_null:
  "JNull \<notin> set rs \<Longrightarrow>
     prioritizedEmails (JArr rs) es
       = Inr (map (\<lambda>e. prioritized (find (matches (id' e)) rs) e) es)"
  unfolding prioritizedEmails_def by (rule map_err_total) (simp add: prioritize_no_null)

lemma prioritized_id: "id' (prioritized a e) = id' e"
  by (simp add: prioritized_def email.defs prioritized_email.defs)

lemma prioritized_truncate: "email.truncate (prioritized a e) = e"
  by (simp add: prioritized_def email.defs prioritized_email.defs)

lemma prioritized_unmatched:
  "priority (prioritized None e) = JStr ''medium''
   \<and> reasoning (prioritized None e) = JStr ''No analysis available''"
  by (simp add: prioritized_def email.defs prioritized_email.defs or_default_def)

lemma prioritized_matched:
  assumes "matches i r"
  shows "priority (prioritized (Some r) e) = or_default (get_prop ''priority'' r) (JStr ''medium'')"
proof -
  from assms have "r \<noteq> JNull" by (auto simp add: matches_def)
  then have "opt_chain (Some r) (get_prop ''priority'') = get_prop ''priority'' r"
    by (cases r) simp_all
  then show ?thesis
    by (simp add: prioritized_def email.defs prioritized_email.defs)
qed

lemma prioritize_truncate:
  "prioritize results e = Inr p \<Longrightarrow> email.truncate p = e"
  by (auto simp add: prioritize_def bind_err_def prioritized_truncate
        split: jsval.splits sum.splits)

lemma prioritizedEmails_truncate:
  assumes "prioritizedEmails results es = Inr merged"
  shows "map email.truncate merged = es"
proof -
  from assms have "list_all2 (\<lambda>e p. prioritize results e = Inr p) es merged"
    unfolding prioritizedEmails_def by (rule map_err_Inr_D)
  then have "list_all2 (\<lambda>e p. email.truncate p = e) es merged"
    by (rule list_all2_mono) (rule prioritize_truncate)
  then show ?thesis
    by (induction rule: list_all2_induct) simp_all
qed

lemma insert_by_mset:
  "insert_by cmp x ys = Inr zs \<Longrightarrow> mset zs = add_mset x (mset ys)"
  by (induction ys arbitrary: zs) (auto split: sum.splits if_splits)

lemma sort_by_mset: "sort_by cmp xs = Inr ys \<Longrightarrow> mset ys = mset xs"
  by (induction xs arbitrary: ys) (auto split: sum.splits dest: insert_by_mset)

lemma analyze_success:
  assumes "fst (analyze w rq) = \<lparr> status = 200, json_body = Success out \<rparr>"
  shows "\<exists>r es results merged. rq = Inr r \<and> emails r = Some es \<and> es \<noteq> []
           \<and> prioritizedEmails results es = Inr merged
           \<and> sort_by compare_priority merged = Inr out"
  using assms
  by (auto simp add: analyze_def analyze_try_def analyze_reply_def bind_err_def Let_def
        split: sum.splits option.splits if_splits prod.splits)

lemmas sample_defs = sample_world_def sample_request_def sample_gemini_def gemini_data_def
  sample_parse_def sample_reply_text_def sample_span_def sample_results_def result_a_def
  email_a_def email_b_def email_c_def

lemmas analyze_defs = analyze_def analyze_try_def analyze_reply_def responseText_def
  analysisResults_def jsonString_def prioritizedEmails_def prioritize_def
  compare_priority_def priorityOrder_def bind_err_def present_def ok_def
  emailsForAnalysis_def for_analysis_def

lemma sample_run:
  "fst (analyze sample_world (Inr sample_request)) =
     \<lparr> status = 200,
       json_body = Success
         [prioritized (Some result_a) email_a, prioritized None email_b, prioritized None email_c] \<rparr>"
  by (simp add: sample_defs analyze_defs prioritized_def or_default_def
        email.defs prioritized_email.defs)

section \<open>gmail-analyze: the merge\<close>

text \<open>
  Claim C1. For every batch of emails and every parsed array of classification results
  (entries of any shape but \<^verbatim>\<open>null\<close>, on which reading \<^verbatim>\<open>id\<close> throws), the merge returns
  exactly one prioritized email per input email, in the order of the input: the list has
  the length of the batch and the same ids position by position. It runs over the whole
  batch, while the batch sent for classification is cut to 100. Every email whose id no
  result matches gets priority \<^verbatim>\<open>medium\<close> and reasoning \<^verbatim>\<open>No analysis available\<close>. A
  success response of the operation carries as many entries as the request has emails.
\<close>

theorem merge_one_per_email:
  assumes "JNull \<notin> set rs"
  shows "(\<exists>merged. prioritizedEmails (JArr rs) es = Inr merged
           \<and> length merged = length es
           \<and> map id' merged = map id' es
           \<and> (\<forall>i < length es. (\<forall>r \<in> set rs. \<not> matches (id' (es ! i)) r) \<longrightarrow>
                  priority (merged ! i) = JStr ''medium''
                  \<and> reasoning (merged ! i) = JStr ''No analysis available''))
    \<and> length (emailsForAnalysis es) = min (length es) 100
    \<and> (fst (analyze w rq) = \<lparr> status = 200, json_body = Success out \<rparr> \<longrightarrow>
          (\<exists>r batch. rq = Inr r \<and> emails r = Some batch \<and> length out = length batch))"
proof -
  let ?merged = "map (\<lambda>e. prioritized (find (matches (id' e)) rs) e) es"
  have run: "prioritizedEmails (JArr rs) es = Inr ?merged"
    using assms by (rule prioritizedEmails_no_null)
  have ids: "map id' ?merged = map id' es"
    by (simp add: prioritized_id)
  have fallback: "priority (?merged ! i) = JStr ''medium''
                  \<and> reasoning (?merged ! i) = JStr ''No analysis available''"
    if "i < length es" and "\<forall>r \<in> set rs. \<not> matches (id' (es ! i)) r" for i
  proof -
    from that(2) have "find (matches (id' (es ! i))) rs = None"
      by (simp add: find_None_iff)
    with that(1) show ?thesis
      by (simp add: prioritized_unmatched)
  qed
  have merge: "\<exists>merged. prioritizedEmails (JArr rs) es = Inr merged
           \<and> length merged = length es
           \<and> map id' merged = map id' es
           \<and> (\<forall>i < length es. (\<forall>r \<in> set rs. \<not> matches (id' (es ! i)) r) \<longrightarrow>
                  priority (merged ! i) = JStr ''medium''
                  \<and> reasoning (merged ! i) = JStr ''No analysis available'')"
    using run ids fallback by (intro exI [of _ ?merged]) simp
  have sent: "length (emailsForAnalysis es) = min (length es) 100"
    by (simp add: emailsForAnalysis_def)
  have returned: "fst (analyze w rq) = \<lparr> status = 200, json_body = Success out \<rparr> \<longrightarrow>
          (\<exists>r batch. rq = Inr r \<and> emails r = Some batch \<and> length out = length batch)"
  proof
    assume "fst (analyze w rq) = \<lparr> status = 200, json_body = Success out \<rparr>"
    then obtain r batch results merged where
      rq: "rq = Inr r" "emails r = Some batch"
      and merged: "prioritizedEmails results batch = Inr merged"
      and sorted: "sort_by compare_priority merged = Inr out"
      using analyze_success by blast
    from merged have "length merged = length batch"
      unfolding prioritizedEmails_def
      by (auto dest!: map_err_Inr_D list_all2_lengthD)
    moreover from sorted have "length out = length merged"
      by (auto dest!: sort_by_mset mset_eq_length)
    ultimately show "\<exists>r batch. rq = Inr r \<and> emails r = Some batch \<and> length out = length batch"
      using rq by simp
  qed
  from merge sent returned show ?thesis
    by (intro conjI)
qed

text \<open>The theorem at one result for \<open>a\<close> and the batch \<open>b, a\<close>, at a batch of 101 emails, and
  at the sample request.\<close>

theorem merge_one_per_email_witness:
  "JNull \<notin> set [result_a]
   \<and> \<not> matches (id' email_b) result_a
   \<and> (\<exists>merged. prioritizedEmails (JArr [result_a]) [email_b, email_a] = Inr merged
         \<and> length merged = 2
         \<and> map id' merged = [''b'', ''a'']
         \<and> priority (merged ! 0) = JStr ''medium''
         \<and> reasoning (merged ! 0) = JStr ''No analysis available'')
   \<and> (\<exists>merged. prioritizedEmails (JArr [result_a]) (replicate 101 email_b) = Inr merged
         \<and> length merged = 101)
   \<and> length (emailsForAnalysis (replicate 101 email_b)) = 100
   \<and> fst (analyze sample_world (Inr sample_request))
        = \<lparr> status = 200,
            json_body = Success [prioritized (Some result_a) email_a, prioritized None email_b,
                                 prioritized None email_c] \<rparr>
   \<and> (\<exists>r batch. Inr sample_request = Inr r \<and> emails r = Some batch
         \<and> length [prioritized (Some result_a) email_a, prioritized None email_b,
                    prioritized None email_c] = length batch)"
proof -
  have null: "JNull \<notin> set [result_a]"
    by (simp add: result_a_def)
  have unmatched: "\<not> matches (id' email_b) result_a"
    by (simp add: matches_def result_a_def email_b_def)
  note inst = merge_one_per_email [OF null, of "[email_b, email_a]" sample_world
      "Inr sample_request"
      "[prioritized (Some result_a) email_a, prioritized None email_b, prioritized None email_c]"]
  note large = merge_one_per_email [OF null, of "replicate 101 email_b"]
  from inst obtain merged where
    m: "prioritizedEmails (JArr [result_a]) [email_b, email_a] = Inr merged"
       "length merged = length [email_b, email_a]"
       "map id' merged = map id' [email_b, email_a]"
       "\<forall>i < length [email_b, email_a].
           (\<forall>r \<in> set [result_a]. \<not> matches (id' ([email_b, email_a] ! i)) r) \<longrightarrow>
             priority (merged ! i) = JStr ''medium''
             \<and> reasoning (merged ! i) = JStr ''No analysis available''"
    by blast
  from m(4) unmatched have
    "priority (merged ! 0) = JStr ''medium'' \<and> reasoning (merged ! 0) = JStr ''No analysis available''"
    by simp
  with m(1,2,3) have first:
    "\<exists>merged. prioritizedEmails (JArr [result_a]) [email_b, email_a] = Inr merged
         \<and> length merged = 2
         \<and> map id' merged = [''b'', ''a'']
         \<and> priority (merged ! 0) = JStr ''medium''
         \<and> reasoning (merged ! 0) = JStr ''No analysis available''"
    by (auto simp add: email_a_def email_b_def)
  from large obtain many where
    "prioritizedEmails (JArr [result_a]) (replicate 101 email_b) = Inr many"
    "length many = length (replicate 101 email_b)"
    by blast
  then have whole:
    "\<exists>merged. prioritizedEmails (JArr [result_a]) (replicate 101 email_b) = Inr merged
         \<and> length merged = 101"
    by simp
  from large have cut: "length (emailsForAnalysis (replicate 101 email_b)) = 100"
    by simp
  from inst sample_run have response:
    "\<exists>r batch. Inr sample_request = Inr r \<and> emails r = Some batch
         \<and> length [prioritized (Some result_a) email_a, prioritized None email_b,
                    prioritized None email_c] = length batch"
    by blast
  show ?thesis
    by (intro conjI null unmatched first whole cut sample_run response)
qed

text \<open>
  Claim C7, as stated, promises the fallback \<^verbatim>\<open>medium\<close> when the matching result carries a
  priority outside \<^verbatim>\<open>high\<close>, \<^verbatim>\<open>medium\<close>, \<^verbatim>\<open>low\<close>. The merge tests the priority for
  truthiness only: the result for \<open>a\<close> with priority \<^verbatim>\<open>urgent\<close> gives the merged priority
  \<^verbatim>\<open>urgent\<close>.
\<close>

theorem unrecognised_priority_counterexample:
  "matches (id' email_a) urgent_result
   \<and> get_prop ''priority'' urgent_result = Some (JStr ''urgent'')
   \<and> \<not> recognised (JStr ''urgent'')
   \<and> prioritizedEmails (JArr [urgent_result]) [email_a]
        = Inr [prioritized (Some urgent_result) email_a]
   \<and> priority (prioritized (Some urgent_result) email_a) = JStr ''urgent''
   \<and> priority (prioritized (Some urgent_result) email_a) \<noteq> JStr ''medium''"
  by (simp add: matches_def urgent_result_def email_a_def recognised_def
        prioritizedEmails_def prioritize_def bind_err_def prioritized_def or_default_def
        email.defs prioritized_email.defs)

text \<open>
  Claim C7, amended. For every email and the first classification result whose id matches
  it: when the result has no priority, or a falsy one (\<^verbatim>\<open>null\<close>, the empty string, \<open>0\<close>,
  \<^verbatim>\<open>false\<close>), the merged email carries the fallback \<^verbatim>\<open>medium\<close>; any other priority,
  recognised or not, is adopted as it is.
\<close>

theorem matched_priority_adopted_or_medium:
  assumes "JNull \<notin> set rs"
    and "i < length es"
    and "rs = pre @ r # post"
    and "\<forall>x \<in> set pre. \<not> matches (id' (es ! i)) x"
    and "matches (id' (es ! i)) r"
  shows "\<exists>merged. prioritizedEmails (JArr rs) es = Inr merged
           \<and> priority (merged ! i)
               = (case get_prop ''priority'' r of
                    None \<Rightarrow> JStr ''medium''
                  | Some v \<Rightarrow> if truthy v then v else JStr ''medium'')"
proof -
  let ?merged = "map (\<lambda>e. prioritized (find (matches (id' e)) rs) e) es"
  have run: "prioritizedEmails (JArr rs) es = Inr ?merged"
    using assms(1) by (rule prioritizedEmails_no_null)
  have "find (matches (id' (es ! i))) rs = Some r"
    using assms(3,4,5) by (rule find_first)
  with assms(2) have "priority (?merged ! i) = priority (prioritized (Some r) (es ! i))"
    by simp
  also have "\<dots> = or_default (get_prop ''priority'' r) (JStr ''medium'')"
    using assms(5) by (rule prioritized_matched)
  finally have "priority (?merged ! i)
      = (case get_prop ''priority'' r of
           None \<Rightarrow> JStr ''medium''
         | Some v \<Rightarrow> if truthy v then v else JStr ''medium'')"
    by (simp add: or_default_def)
  with run show ?thesis by blast
qed

text \<open>The theorem at a result with priority \<^verbatim>\<open>urgent\<close> and at a result without priority.\<close>

theorem matched_priority_adopted_or_medium_witness:
  "JNull \<notin> set [urgent_result, bare_result]
   \<and> matches (id' email_a) urgent_result
   \<and> (\<exists>merged. prioritizedEmails (JArr [urgent_result, bare_result]) [email_b, email_a] = Inr merged
         \<and> priority (merged ! 1) = JStr ''urgent'')
   \<and> JNull \<notin> set [bare_result, urgent_result]
   \<and> matches (id' email_a) bare_result
   \<and> get_prop ''priority'' bare_result = None
   \<and> (\<exists>merged. prioritizedEmails (JArr [bare_result, urgent_result]) [email_b, email_a] = Inr merged
         \<and> priority (merged ! 1) = JStr ''medium'')"
proof -
  have n1: "JNull \<notin> set [urgent_result, bare_result]"
    and n2: "JNull \<notin> set [bare_result, urgent_result]"
    by (simp_all add: urgent_result_def bare_result_def)
  have i: "1 < length [email_b, email_a]" by simp
  have m1: "matches (id' ([email_b, email_a] ! 1)) urgent_result"
    and m2: "matches (id' ([email_b, email_a] ! 1)) bare_result"
    by (simp_all add: matches_def urgent_result_def bare_result_def email_a_def)
  have none: "get_prop ''priority'' bare_result = None"
    by (simp add: bare_result_def)
  have urgent: "get_prop ''priority'' urgent_result = Some (JStr ''urgent'')"
    by (simp add: urgent_result_def)
  have "\<exists>merged. prioritizedEmails (JArr [urgent_result, bare_result]) [email_b, email_a] = Inr merged
         \<and> priority (merged ! 1) = JStr ''urgent''"
    using matched_priority_adopted_or_medium [OF n1 i, of "[]" urgent_result "[bare_result]"] m1
    by (simp add: urgent)
  moreover have "\<exists>merged. prioritizedEmails (JArr [bare_result, urgent_result]) [email_b, email_a] = Inr merged
         \<and> priority (merged ! 1) = JStr ''medium''"
    using matched_priority_adopted_or_medium [OF n2 i, of "[]" bare_result "[urgent_result]"] m2
    by (simp add: none)
  ultimately show ?thesis
    using n1 n2 m1 m2 none by simp
qed

text \<open>
  Claim C9. The merge leaves the fields of each input email as they are: cut back to the
  fields of an email (id, subject, from, date, snippet, body), the merged list is the
  input batch, and the list of a success response is a rearrangement of it; the record
  type adds priority, reasoning and gmailUrl and nothing else. The cut to 200 characters
  is made on the copy that goes to the classification service only.
\<close>

theorem merge_keeps_email_fields:
  "(prioritizedEmails results es = Inr merged \<longrightarrow> map email.truncate merged = es)
   \<and> (fst (analyze w rq) = \<lparr> status = 200, json_body = Success out \<rparr> \<longrightarrow>
         (\<exists>r batch. rq = Inr r \<and> emails r = Some batch
            \<and> mset (map email.truncate out) = mset batch))
   \<and> (body e = Some b \<and> b \<noteq> [] \<longrightarrow> a_body (for_analysis e) = take 200 b)"
proof (intro conjI impI)
  assume "prioritizedEmails results es = Inr merged"
  then show "map email.truncate merged = es"
    by (rule prioritizedEmails_truncate)
next
  assume "fst (analyze w rq) = \<lparr> status = 200, json_body = Success out \<rparr>"
  then obtain r batch res ps where
    rq: "rq = Inr r" "emails r = Some batch"
    and ps: "prioritizedEmails res batch = Inr ps"
    and sorted: "sort_by compare_priority ps = Inr out"
    using analyze_success by blast
  from sorted have "mset out = mset ps" by (rule sort_by_mset)
  then have "mset (map email.truncate out) = mset (map email.truncate ps)"
    by (metis mset_map)
  with ps have "mset (map email.truncate out) = mset batch"
    by (simp add: prioritizedEmails_truncate)
  with rq show "\<exists>r batch. rq = Inr r \<and> emails r = Some batch
            \<and> mset (map email.truncate out) = mset batch"
    by simp
next
  assume "body e = Some b \<and> b \<noteq> []"
  then show "a_body (for_analysis e) = take 200 b"
    by (cases b) (simp_all add: for_analysis_def)
qed

text \<open>The theorem at an email with a body of 250 characters, and at the sample request.\<close>

theorem merge_keeps_email_fields_witness:
  "prioritizedEmails sample_results [long_email, email_a]
     = Inr [prioritized None long_email, prioritized (Some result_a) email_a]
   \<and> map email.truncate [prioritized None long_email, prioritized (Some result_a) email_a]
       = [long_email, email_a]
   \<and> body (prioritized None long_email) = Some (replicate 250 (CHR ''x''))
   \<and> body long_email = Some (replicate 250 (CHR ''x''))
   \<and> a_body (for_analysis long_email) = replicate 200 (CHR ''x'')
   \<and> fst (analyze sample_world (Inr sample_request))
        = \<lparr> status = 200,
            json_body = Success [prioritized (Some result_a) email_a, prioritized None email_b,
                                 prioritized None email_c] \<rparr>
   \<and> mset (map email.truncate [prioritized (Some result_a) email_a, prioritized None email_b,
                                prioritized None email_c])
       = mset [email_b, email_a, email_c]"
proof -
  have run: "prioritizedEmails sample_results [long_email, email_a]
     = Inr [prioritized None long_email, prioritized (Some result_a) email_a]"
    by (simp add: sample_results_def result_a_def long_email_def email_a_def
          prioritizedEmails_def prioritize_def bind_err_def)
  have long: "body long_email = Some (replicate 250 (CHR ''x''))"
    by (simp add: long_email_def)
  have nonempty: "replicate 250 (CHR ''x'') \<noteq> []"
    by simp
  note inst = merge_keeps_email_fields [of sample_results "[long_email, email_a]"
      "[prioritized None long_email, prioritized (Some result_a) email_a]"
      sample_world "Inr sample_request"
      "[prioritized (Some result_a) email_a, prioritized None email_b, prioritized None email_c]"
      long_email "replicate 250 (CHR ''x'')"]
  from inst run have kept:
    "map email.truncate [prioritized None long_email, prioritized (Some result_a) email_a]
       = [long_email, email_a]"
    by blast
  then have t: "email.truncate (prioritized None long_email) = long_email"
    by simp
  have "body (prioritized None long_email) = body (email.truncate (prioritized None long_email))"
    by (simp add: email.defs)
  also have "\<dots> = body long_email"
    by (simp only: t)
  finally have "body (prioritized None long_email) = body long_email" .
  with long have out_body: "body (prioritized None long_email) = Some (replicate 250 (CHR ''x''))"
    by simp
  from inst long nonempty have "a_body (for_analysis long_email) = take 200 (replicate 250 (CHR ''x''))"
    by blast
  then have cap: "a_body (for_analysis long_email) = replicate 200 (CHR ''x'')"
    by simp
  from inst sample_run have
    "\<exists>r batch. Inr sample_request = Inr r \<and> emails r = Some batch
            \<and> mset (map email.truncate [prioritized (Some result_a) email_a,
                        prioritized None email_b, prioritized None email_c]) = mset batch"
    by blast
  then have handler:
    "mset (map email.truncate [prioritized (Some result_a) email_a, prioritized None email_b,
                                prioritized None email_c])
       = mset [email_b, email_a, email_c]"
    by (auto simp add: sample_request_def)
  from run kept out_body long cap sample_run handler show ?thesis
    by blast
qed

section \<open>gmail-analyze: the ranking\<close>

lemma compare_recognised:
  assumes "recognised (priority a)" and "recognised (priority b)"
  shows "compare_priority a b
           = Inr (Some (spec_tier (priority b) - spec_tier (priority a)))"
  using assms
  by (auto simp add: recognised_def compare_priority_def bind_err_def priorityOrder_def
        spec_tier_def)

lemma insert_by_recognised:
  assumes "recognised (priority x)" and "\<forall>y \<in> set ys. recognised (priority y)"
  shows "insert_by compare_priority x ys
           = Inr (insort_key (\<lambda>p. - spec_tier (priority p)) x ys)"
  using assms by (induction ys) (simp_all add: compare_recognised)

lemma sort_by_recognised:
  assumes "\<forall>p \<in> set xs. recognised (priority p)"
  shows "sort_by compare_priority xs = Inr (sort_key (\<lambda>p. - spec_tier (priority p)) xs)"
  using assms by (induction xs) (simp_all add: insert_by_recognised)

lemma sorted_by_tier:
  "sorted_wrt (\<lambda>a b. spec_tier (priority b) \<le> spec_tier (priority a))
     (sort_key (\<lambda>p. - spec_tier (priority p)) xs)"
proof -
  have "sorted (map (\<lambda>p. - spec_tier (priority p)) (sort_key (\<lambda>p. - spec_tier (priority p)) xs))"
    by (rule sorted_sort_key)
  then show ?thesis
    by (simp add: sorted_map)
qed

lemma stable_by_priority:
  "filter (\<lambda>p. priority p = t) (sort_key (\<lambda>p. - spec_tier (priority p)) xs)
           = filter (\<lambda>p. priority p = t) xs"
proof -
  let ?f = "\<lambda>p. - spec_tier (priority p)"
  let ?P = "\<lambda>p. priority p = t"
  let ?Q = "\<lambda>p. ?f p = - spec_tier t"
  have narrow: "filter ?P ys = filter ?P (filter ?Q ys)" for ys
    by (induction ys) auto
  have "filter ?P (sort_key ?f xs) = filter ?P (filter ?Q (sort_key ?f xs))"
    by (rule narrow)
  also have "\<dots> = filter ?P (filter ?Q xs)"
    by (simp only: sort_key_stable)
  also have "\<dots> = filter ?P xs"
    by (rule narrow [symmetric])
  finally show ?thesis .
qed

text \<open>
  Claim C2. For every merged list in which every priority is one of \<^verbatim>\<open>high\<close>, \<^verbatim>\<open>medium\<close>,
  \<^verbatim>\<open>low\<close>, the sort returns a list that is non-increasing in the ordinal high 3, medium 2,
  low 1 and stable: for each priority, the entries with that priority stand in the order
  they had in the merged list (and the list is a rearrangement of the merged list). That
  list is the one the operation returns with status 200.
\<close>

theorem sorted_by_priority_stable:
  assumes "\<forall>p \<in> set merged. recognised (priority p)"
  shows "(\<exists>out. sort_by compare_priority merged = Inr out
           \<and> sorted_wrt (\<lambda>a b. spec_tier (priority b) \<le> spec_tier (priority a)) out
           \<and> (\<forall>q. filter (\<lambda>p. priority p = q) out = filter (\<lambda>p. priority p = q) merged)
           \<and> mset out = mset merged)
    \<and> (ok g \<and> http_json g = Some d \<and> responseText d = Inr (Some t) \<and> truthy t
         \<and> analysisResults w t = Inr results \<and> prioritizedEmails results es = Inr merged \<longrightarrow>
        (\<exists>out. analyze_reply w es g = Inr \<lparr> status = 200, json_body = Success out \<rparr>
           \<and> sorted_wrt (\<lambda>a b. spec_tier (priority b) \<le> spec_tier (priority a)) out
           \<and> (\<forall>q. filter (\<lambda>p. priority p = q) out = filter (\<lambda>p. priority p = q) merged)))"
proof -
  let ?out = "sort_key (\<lambda>p. - spec_tier (priority p)) merged"
  have run: "sort_by compare_priority merged = Inr ?out"
    using assms by (rule sort_by_recognised)
  have sorted: "sorted_wrt (\<lambda>a b. spec_tier (priority b) \<le> spec_tier (priority a)) ?out"
    by (rule sorted_by_tier)
  have stable: "\<forall>q. filter (\<lambda>p. priority p = q) ?out = filter (\<lambda>p. priority p = q) merged"
    by (simp add: stable_by_priority)
  have perm: "mset ?out = mset merged"
    by simp
  have reply: "analyze_reply w es g = Inr \<lparr> status = 200, json_body = Success ?out \<rparr>"
    if "ok g" "http_json g = Some d" "responseText d = Inr (Some t)" "truthy t"
       "analysisResults w t = Inr results" "prioritizedEmails results es = Inr merged"
    using that run by (simp add: analyze_reply_def bind_err_def)
  show ?thesis
    using run sorted stable perm reply by blast
qed

lemma sample_merged:
  "prioritizedEmails sample_results [email_b, email_a, email_c]
     = Inr [prioritized None email_b, prioritized (Some result_a) email_a, prioritized None email_c]"
  by (simp add: sample_results_def result_a_def email_a_def email_b_def email_c_def
        prioritizedEmails_def prioritize_def bind_err_def)

lemma sample_priorities:
  "priority (prioritized None e) = JStr ''medium''"
  "priority (prioritized (Some result_a) e) = JStr ''high''"
  by (simp_all add: prioritized_def result_a_def or_default_def email.defs prioritized_email.defs)

text \<open>The theorem at the merged sample batch: \<open>b\<close> and \<open>c\<close> (medium) keep their order
  behind \<open>a\<close> (high).\<close>

theorem sorted_by_priority_stable_witness:
  "recognised (priority (prioritized None email_b))
   \<and> recognised (priority (prioritized (Some result_a) email_a))
   \<and> recognised (priority (prioritized None email_c))
   \<and> sort_by compare_priority
        [prioritized None email_b, prioritized (Some result_a) email_a, prioritized None email_c]
       = Inr [prioritized (Some result_a) email_a, prioritized None email_b, prioritized None email_c]
   \<and> (\<exists>out. sort_by compare_priority
          [prioritized None email_b, prioritized (Some result_a) email_a, prioritized None email_c]
            = Inr out
         \<and> sorted_wrt (\<lambda>a b. spec_tier (priority b) \<le> spec_tier (priority a)) out
         \<and> filter (\<lambda>p. priority p = JStr ''medium'') out
             = [prioritized None email_b, prioritized None email_c])"
proof -
  let ?merged = "[prioritized None email_b, prioritized (Some result_a) email_a,
                  prioritized None email_c]"
  have rec: "\<forall>p \<in> set ?merged. recognised (priority p)"
    by (simp add: sample_priorities recognised_def)
  have run: "sort_by compare_priority ?merged
       = Inr [prioritized (Some result_a) email_a, prioritized None email_b, prioritized None email_c]"
    by (simp add: compare_priority_def sample_priorities bind_err_def priorityOrder_def)
  from sorted_by_priority_stable [OF rec] obtain out where
    out: "sort_by compare_priority ?merged = Inr out"
      "sorted_wrt (\<lambda>a b. spec_tier (priority b) \<le> spec_tier (priority a)) out"
      "\<forall>t. filter (\<lambda>p. priority p = t) out = filter (\<lambda>p. priority p = t) ?merged"
    by blast
  from out(3) have "filter (\<lambda>p. priority p = JStr ''medium'') out
      = filter (\<lambda>p. priority p = JStr ''medium'') ?merged"
    by blast
  then have "filter (\<lambda>p. priority p = JStr ''medium'') out
      = [prioritized None email_b, prioritized None email_c]"
    by (simp add: sample_priorities)
  with out(1,2) rec run show ?thesis
    by auto
qed

section \<open>gmail-analyze: the response parser\<close>

lemma upto_last_close_None: "upto_last_close cs = None \<longleftrightarrow> CHR '']'' \<notin> set cs"
  by (induction cs) (auto split: option.splits)

lemma upto_last_close_span:
  "CHR '']'' \<notin> set post \<Longrightarrow>
     upto_last_close (mid @ CHR '']'' # post) = Some (mid @ [CHR '']''])"
proof (induction mid)
  case Nil
  then have "upto_last_close post = None"
    by (simp add: upto_last_close_None)
  then show ?case by simp
next
  case (Cons c mid)
  then show ?case by simp
qed

lemma upto_last_close_SomeD:
  "upto_last_close cs = Some m \<Longrightarrow>
     \<exists>mid post. cs = mid @ CHR '']'' # post \<and> CHR '']'' \<notin> set post \<and> m = mid @ [CHR '']'']"
proof (induction cs arbitrary: m)
  case Nil
  then show ?case by simp
next
  case (Cons c cs)
  show ?case
  proof (cases "upto_last_close cs")
    case None
    with Cons.prems have c: "c = CHR '']''" and m: "m = [c]"
      by (auto split: if_splits)
    from None have "CHR '']'' \<notin> set cs"
      by (simp add: upto_last_close_None)
    with c m have "c # cs = [] @ CHR '']'' # cs \<and> CHR '']'' \<notin> set cs \<and> m = [] @ [CHR '']'']"
      by simp
    then show ?thesis by blast
  next
    case (Some m')
    with Cons.prems have m: "m = c # m'" by simp
    from Cons.IH [OF Some] obtain mid post where
      "cs = mid @ CHR '']'' # post" "CHR '']'' \<notin> set post" "m' = mid @ [CHR '']'']"
      by blast
    with m have "c # cs = (c # mid) @ CHR '']'' # post \<and> CHR '']'' \<notin> set post
        \<and> m = (c # mid) @ [CHR '']'']"
      by simp
    then show ?thesis by blast
  qed
qed

lemma jsonMatch_span:
  assumes "CHR ''['' \<notin> set pre" and "CHR '']'' \<notin> set post"
  shows "jsonMatch (pre @ CHR ''['' # mid @ CHR '']'' # post) = Some (CHR ''['' # mid @ [CHR '']''])"
  using assms(1)
  by (induction pre) (auto simp add: upto_last_close_span [OF assms(2)])

lemma jsonMatch_SomeD:
  "jsonMatch reply = Some m \<Longrightarrow>
     \<exists>pre mid post. reply = pre @ CHR ''['' # mid @ CHR '']'' # post
        \<and> CHR ''['' \<notin> set pre \<and> CHR '']'' \<notin> set post \<and> m = CHR ''['' # mid @ [CHR '']'']"
proof (induction reply)
  case Nil
  then show ?case by simp
next
  case (Cons c cs)
  show ?case
  proof (cases "c = CHR ''['' \<and> upto_last_close cs \<noteq> None")
    case True
    then obtain m' where m': "upto_last_close cs = Some m'" by blast
    with True Cons.prems have m: "m = c # m'" by simp
    from upto_last_close_SomeD [OF m'] obtain mid post where
      "cs = mid @ CHR '']'' # post" "CHR '']'' \<notin> set post" "m' = mid @ [CHR '']'']"
      by blast
    with True m have "c # cs = [] @ CHR ''['' # mid @ CHR '']'' # post
        \<and> CHR ''['' \<notin> set [] \<and> CHR '']'' \<notin> set post \<and> m = CHR ''['' # mid @ [CHR '']'']"
      by simp
    then show ?thesis by blast
  next
    case False
    with Cons.prems have rest: "jsonMatch cs = Some m" and c: "c \<noteq> CHR ''['' \<or> upto_last_close cs = None"
      by (auto split: if_splits option.splits)
    from Cons.IH [OF rest] obtain pre mid post where
      d: "cs = pre @ CHR ''['' # mid @ CHR '']'' # post"
        "CHR ''['' \<notin> set pre" "CHR '']'' \<notin> set post" "m = CHR ''['' # mid @ [CHR '']'']"
      by blast
    from d(1) have "CHR '']'' \<in> set cs" by simp
    with c have "c \<noteq> CHR ''[''"
      by (auto simp add: upto_last_close_None)
    with d have "c # cs = (c # pre) @ CHR ''['' # mid @ CHR '']'' # post
        \<and> CHR ''['' \<notin> set (c # pre) \<and> CHR '']'' \<notin> set post \<and> m = CHR ''['' # mid @ [CHR '']'']"
      by simp
    then show ?thesis by blast
  qed
qed

lemma jsonMatch_None:
  "jsonMatch reply = None \<longleftrightarrow> (\<forall>pre rest. reply = pre @ CHR ''['' # rest \<longrightarrow> CHR '']'' \<notin> set rest)"
proof (induction reply)
  case Nil
  then show ?case by simp
next
  case (Cons c cs)
  have "jsonMatch (c # cs) = None
      \<longleftrightarrow> (c = CHR ''['' \<longrightarrow> upto_last_close cs = None) \<and> jsonMatch cs = None"
    by (auto split: option.splits)
  also have "\<dots> \<longleftrightarrow> (c = CHR ''['' \<longrightarrow> CHR '']'' \<notin> set cs) \<and> jsonMatch cs = None"
    by (simp only: upto_last_close_None)
  also have "\<dots> \<longleftrightarrow> (c = CHR ''['' \<longrightarrow> CHR '']'' \<notin> set cs)
      \<and> (\<forall>pre rest. cs = pre @ CHR ''['' # rest \<longrightarrow> CHR '']'' \<notin> set rest)"
    by (simp only: Cons.IH)
  also have "\<dots> \<longleftrightarrow> (\<forall>pre rest. c # cs = pre @ CHR ''['' # rest \<longrightarrow> CHR '']'' \<notin> set rest)"
    by (auto simp add: Cons_eq_append_conv)
  finally show ?case .
qed

lemma jsonString_no_span:
  assumes "\<not> (\<exists>pre mid post. reply = pre @ CHR ''['' # mid @ CHR '']'' # post)"
  shows "jsonString reply = reply"
proof -
  have "CHR '']'' \<notin> set rest" if "reply = pre @ CHR ''['' # rest" for pre rest
  proof
    assume "CHR '']'' \<in> set rest"
    then obtain mid post where "rest = mid @ CHR '']'' # post"
      by (auto simp add: in_set_conv_decomp)
    with that assms show False by blast
  qed
  then have "jsonMatch reply = None"
    by (simp add: jsonMatch_None)
  then show ?thesis
    by (simp add: jsonString_def)
qed

lemma jsonString_span:
  assumes "reply = pre @ CHR ''['' # mid @ CHR '']'' # post"
  shows "\<exists>pre mid post. reply = pre @ CHR ''['' # mid @ CHR '']'' # post
           \<and> CHR ''['' \<notin> set pre \<and> CHR '']'' \<notin> set post
           \<and> jsonString reply = CHR ''['' # mid @ [CHR '']'']"
proof (cases "jsonMatch reply")
  case None
  with assms have "CHR '']'' \<notin> set (mid @ CHR '']'' # post)"
    unfolding jsonMatch_None by blast
  then show ?thesis by simp
next
  case (Some m)
  from jsonMatch_SomeD [OF Some] Some show ?thesis
    by (auto simp add: jsonString_def)
qed

lemma analyze_parse_failure:
  assumes "GEMINI_API_KEY w = Some k" and "k \<noteq> []"
    and "present (accessToken r)" and "emails r = Some es" and "es \<noteq> []"
    and "gemini w \<lparr> call_key = k, call_emails = emailsForAnalysis es \<rparr> = Some g"
    and "ok g" and "http_json g = Some d" and "responseText d = Inr (Some (JStr reply))"
    and "JSON_parse w (jsonString reply) = None"
  shows "analyze w (Inr r)
           = (\<lparr> status = 500,
                json_body = CaughtMessage (Error (if reply = [] then ''No response from Gemini''
                                                   else ''Invalid response format from Gemini'')) \<rparr>,
              [\<lparr> call_key = k, call_emails = emailsForAnalysis es \<rparr>])"
  using assms
  by (simp add: analyze_def analyze_try_def analyze_reply_def analysisResults_def bind_err_def)

lemma sample_jsonString: "jsonString sample_reply_text = sample_span"
  by (simp add: jsonString_def sample_reply_text_def sample_span_def)


lemma responseText_gemini_data: "responseText (gemini_data t) = Inr (Some (JStr t))"
  by (simp add: responseText_def gemini_data_def)

text \<open>
  Claim C3. For every reply: when the reply has a \<^verbatim>\<open>[\<close> with a \<^verbatim>\<open>]\<close> somewhere behind it,
  the parser takes the span from the first \<^verbatim>\<open>[\<close> to the last \<^verbatim>\<open>]\<close>; when it has none, it
  takes the reply as it is; what it takes is given to \<^verbatim>\<open>JSON.parse\<close>. When that parse
  fails, the operation answers status 500 with an error message (after the one
  classification call) and no priorities. For the reply of the specification
  (\<open>sample_reply_text\<close>) the span is the bracketed array, and the array of one result for
  id \<open>a\<close> that \<^verbatim>\<open>JSON.parse\<close> makes of that span is the result of the parser.
  \<^verbatim>\<open>JSON.parse\<close> is the runtime's and is a parameter of the world.
\<close>

theorem response_parser:
  "((\<exists>pre mid post. reply = pre @ CHR ''['' # mid @ CHR '']'' # post) \<longrightarrow>
      (\<exists>pre mid post. reply = pre @ CHR ''['' # mid @ CHR '']'' # post
         \<and> CHR ''['' \<notin> set pre \<and> CHR '']'' \<notin> set post
         \<and> jsonString reply = CHR ''['' # mid @ [CHR '']'']))
   \<and> (\<not> (\<exists>pre mid post. reply = pre @ CHR ''['' # mid @ CHR '']'' # post) \<longrightarrow>
        jsonString reply = reply)
   \<and> analysisResults w (JStr reply)
       = (case JSON_parse w (jsonString reply) of
            None \<Rightarrow> Inl (Error ''Invalid response format from Gemini'')
          | Some v \<Rightarrow> Inr v)
   \<and> (GEMINI_API_KEY w = Some k \<and> k \<noteq> [] \<and> present (accessToken r)
        \<and> emails r = Some es \<and> es \<noteq> []
        \<and> gemini w \<lparr> call_key = k, call_emails = emailsForAnalysis es \<rparr> = Some g
        \<and> ok g \<and> http_json g = Some d \<and> responseText d = Inr (Some (JStr reply))
        \<and> JSON_parse w (jsonString reply) = None \<longrightarrow>
        (\<exists>msg. analyze w (Inr r)
                 = (\<lparr> status = 500, json_body = CaughtMessage (Error msg) \<rparr>,
                    [\<lparr> call_key = k, call_emails = emailsForAnalysis es \<rparr>])))
   \<and> jsonString sample_reply_text = sample_span
   \<and> (JSON_parse w sample_span
          = Some (JArr [JObj [(''id'', JStr ''a''), (''priority'', JStr ''high''),
                              (''reasoning'', JStr ''urgent'')]]) \<longrightarrow>
        analysisResults w (JStr sample_reply_text)
          = Inr (JArr [JObj [(''id'', JStr ''a''), (''priority'', JStr ''high''),
                             (''reasoning'', JStr ''urgent'')]]))"
proof (intro conjI impI)
  assume "\<exists>pre mid post. reply = pre @ CHR ''['' # mid @ CHR '']'' # post"
  then show "\<exists>pre mid post. reply = pre @ CHR ''['' # mid @ CHR '']'' # post
         \<and> CHR ''['' \<notin> set pre \<and> CHR '']'' \<notin> set post
         \<and> jsonString reply = CHR ''['' # mid @ [CHR '']'']"
    using jsonString_span by blast
next
  assume "\<not> (\<exists>pre mid post. reply = pre @ CHR ''['' # mid @ CHR '']'' # post)"
  then show "jsonString reply = reply"
    by (rule jsonString_no_span)
next
  show "analysisResults w (JStr reply)
       = (case JSON_parse w (jsonString reply) of
            None \<Rightarrow> Inl (Error ''Invalid response format from Gemini'')
          | Some v \<Rightarrow> Inr v)"
    by (simp add: analysisResults_def)
next
  assume "GEMINI_API_KEY w = Some k \<and> k \<noteq> [] \<and> present (accessToken r)
        \<and> emails r = Some es \<and> es \<noteq> []
        \<and> gemini w \<lparr> call_key = k, call_emails = emailsForAnalysis es \<rparr> = Some g
        \<and> ok g \<and> http_json g = Some d \<and> responseText d = Inr (Some (JStr reply))
        \<and> JSON_parse w (jsonString reply) = None"
  then have "analyze w (Inr r)
           = (\<lparr> status = 500,
                json_body = CaughtMessage (Error (if reply = [] then ''No response from Gemini''
                                                   else ''Invalid response format from Gemini'')) \<rparr>,
              [\<lparr> call_key = k, call_emails = emailsForAnalysis es \<rparr>])"
    using analyze_parse_failure [of w k r es g d reply] by blast
  then show "\<exists>msg. analyze w (Inr r)
                 = (\<lparr> status = 500, json_body = CaughtMessage (Error msg) \<rparr>,
                    [\<lparr> call_key = k, call_emails = emailsForAnalysis es \<rparr>])"
    by blast
next
  show "jsonString sample_reply_text = sample_span"
    by (rule sample_jsonString)
next
  assume "JSON_parse w sample_span
          = Some (JArr [JObj [(''id'', JStr ''a''), (''priority'', JStr ''high''),
                              (''reasoning'', JStr ''urgent'')]])"
  then show "analysisResults w (JStr sample_reply_text)
          = Inr (JArr [JObj [(''id'', JStr ''a''), (''priority'', JStr ''high''),
                             (''reasoning'', JStr ''urgent'')]])"
    by (simp add: analysisResults_def sample_jsonString)
qed

text \<open>The theorem at a reply without brackets, which the stand-in parser rejects, and at
  the reply of the specification.\<close>

theorem response_parser_witness:
  "sample_reply_text = ''Here is the result:\<newline>'' @ CHR ''['' # tl (butlast sample_span) @ CHR '']'' # ''\<newline>Thanks''
   \<and> jsonString sample_reply_text = CHR ''['' # tl (butlast sample_span) @ [CHR '']'']
   \<and> jsonString ''I cannot help with that'' = ''I cannot help with that''
   \<and> JSON_parse garbled_world (jsonString ''I cannot help with that'') = None
   \<and> (\<exists>msg. analyze garbled_world (Inr sample_request)
              = (\<lparr> status = 500, json_body = CaughtMessage (Error msg) \<rparr>,
                 [\<lparr> call_key = ''key'',
                    call_emails = emailsForAnalysis [email_b, email_a, email_c] \<rparr>]))
   \<and> JSON_parse sample_world sample_span
        = Some (JArr [JObj [(''id'', JStr ''a''), (''priority'', JStr ''high''),
                           (''reasoning'', JStr ''urgent'')]])
   \<and> analysisResults sample_world (JStr sample_reply_text)
        = Inr (JArr [JObj [(''id'', JStr ''a''), (''priority'', JStr ''high''),
                           (''reasoning'', JStr ''urgent'')]])"
proof -
  let ?garbled = "''I cannot help with that''"
  let ?g = "\<lparr> http_status = 200, http_json = Some (gemini_data ?garbled) \<rparr>"
  have shape: "sample_reply_text
      = ''Here is the result:\<newline>'' @ CHR ''['' # tl (butlast sample_span) @ CHR '']'' # ''\<newline>Thanks''"
    by (simp add: sample_reply_text_def sample_span_def)
  have no_span: "\<not> (\<exists>pre mid post. ?garbled = pre @ CHR ''['' # mid @ CHR '']'' # post)"
  proof
    assume "\<exists>pre mid post. ?garbled = pre @ CHR ''['' # mid @ CHR '']'' # post"
    then obtain pre mid post where "?garbled = pre @ CHR ''['' # mid @ CHR '']'' # post"
      by blast
    then have "CHR ''['' \<in> set ?garbled"
      by (metis in_set_conv_decomp)
    then show False by simp
  qed
  have parse_none: "JSON_parse garbled_world (jsonString ?garbled) = None"
    by (simp add: garbled_world_def sample_parse_def sample_span_def jsonString_def)
  have parse_some: "JSON_parse sample_world sample_span
        = Some (JArr [JObj [(''id'', JStr ''a''), (''priority'', JStr ''high''),
                           (''reasoning'', JStr ''urgent'')]])"
    by (simp add: sample_world_def sample_parse_def sample_results_def result_a_def)
  have reach: "GEMINI_API_KEY garbled_world = Some ''key'' \<and> ''key'' \<noteq> []
        \<and> present (accessToken sample_request)
        \<and> emails sample_request = Some [email_b, email_a, email_c] \<and> [email_b, email_a, email_c] \<noteq> []
        \<and> gemini garbled_world
             \<lparr> call_key = ''key'', call_emails = emailsForAnalysis [email_b, email_a, email_c] \<rparr>
            = Some ?g
        \<and> ok ?g \<and> http_json ?g = Some (gemini_data ?garbled)
        \<and> responseText (gemini_data ?garbled) = Inr (Some (JStr ?garbled))"
    by (simp add: garbled_world_def garbled_gemini_def sample_request_def present_def ok_def
          responseText_gemini_data)
  note at_garbled = response_parser [of ?garbled garbled_world "''key''" sample_request
      "[email_b, email_a, email_c]" ?g "gemini_data ?garbled"]
  note at_sample = response_parser [of sample_reply_text sample_world]
  from at_garbled no_span have raw: "jsonString ?garbled = ?garbled"
    by blast
  from at_garbled reach parse_none have abort:
    "\<exists>msg. analyze garbled_world (Inr sample_request)
              = (\<lparr> status = 500, json_body = CaughtMessage (Error msg) \<rparr>,
                 [\<lparr> call_key = ''key'',
                    call_emails = emailsForAnalysis [email_b, email_a, email_c] \<rparr>])"
    by blast
  from shape have "\<exists>pre mid post. sample_reply_text = pre @ CHR ''['' # mid @ CHR '']'' # post"
    by blast
  from at_sample have span: "jsonString sample_reply_text = CHR ''['' # tl (butlast sample_span) @ [CHR '']'']"
    by (simp add: sample_span_def)
  from at_sample parse_some have example:
    "analysisResults sample_world (JStr sample_reply_text)
        = Inr (JArr [JObj [(''id'', JStr ''a''), (''priority'', JStr ''high''),
                           (''reasoning'', JStr ''urgent'')]])"
    by blast
  from shape span raw parse_none abort parse_some example show ?thesis
    by blast
qed

section \<open>gmail-fetch: which blob the body decoder takes\<close>

lemmas atob_defs = decode_blob_def base64url_to_base64_def atob_def strip_padding_def
  ascii_whitespace_def base64_alphabet_def byte_def

lemma scan_parts_first:
  assumes "\<forall>q \<in> set pre. \<not> plain_with_blob q"
    and "mimeType part = ''text/plain''"
    and "truthy_data (blob_data (part_body part)) = Some d"
  shows "scan_parts (pre @ part # post) = decode_blob d"
  using assms by (induction pre) (auto simp add: plain_with_blob_def)

lemma scan_parts_none:
  assumes "\<forall>q \<in> set ps. \<not> plain_with_blob q"
  shows "scan_parts ps = Inr []"
  using assms by (induction ps) (auto simp add: plain_with_blob_def)

text \<open>
  Claim C5, as stated, has the decoder scan the tree of parts depth-first. The loop runs
  over \<^verbatim>\<open>detail.payload.parts\<close> only: for a payload whose one part is a
  \<^verbatim>\<open>multipart/alternative\<close> that holds the \<^verbatim>\<open>text/plain\<close> part, the depth-first scan finds
  the blob of \<^verbatim>\<open>hi\<close>, and the decoder returns the empty string.
\<close>

theorem nested_plain_part_counterexample:
  "truthy_data (blob_data (payload_body nested_payload)) = None
   \<and> payload_parts nested_payload
       = Some [Part ''multipart/alternative'' None [plain_part, html_part]]
   \<and> spec_depth_first_blobs [Part ''multipart/alternative'' None [plain_part, html_part]]
       = Some ''aGk=''
   \<and> decode_blob ''aGk='' = Inr ''hi''
   \<and> body_of (Some nested_payload) = Inr []"
  by (simp add: nested_payload_def plain_part_def html_part_def body_of_def blob_data_def
        truthy_data_def atob_defs)

text \<open>
  Claim C5, amended. If the payload has a top-level blob (not empty), the decoder decodes
  that blob. Otherwise it goes through the top-level parts in order, without descending
  into the parts of a part, and decodes the blob of the first part whose MIME type is
  exactly \<^verbatim>\<open>text/plain\<close> and which carries a blob (not empty), stopping there. With no
  top-level blob and no such top-level part (or no parts, or no payload) it returns the
  empty string.
\<close>

theorem body_of_top_level_scan:
  "(truthy_data (blob_data (payload_body p)) = Some d \<longrightarrow> body_of (Some p) = decode_blob d)
   \<and> (truthy_data (blob_data (payload_body p)) = None
        \<and> payload_parts p = Some (pre @ part # post)
        \<and> (\<forall>q \<in> set pre. \<not> plain_with_blob q)
        \<and> mimeType part = ''text/plain''
        \<and> truthy_data (blob_data (part_body part)) = Some d \<longrightarrow>
        body_of (Some p) = decode_blob d)
   \<and> (truthy_data (blob_data (payload_body p)) = None
        \<and> payload_parts p = Some ps
        \<and> (\<forall>q \<in> set ps. \<not> plain_with_blob q) \<longrightarrow>
        body_of (Some p) = Inr [])
   \<and> (truthy_data (blob_data (payload_body p)) = None \<and> payload_parts p = None \<longrightarrow>
        body_of (Some p) = Inr [])
   \<and> body_of None = Inr []"
  by (auto simp add: body_of_def truthy_data_def scan_parts_first scan_parts_none
        split: option.splits)


text \<open>The theorem at a payload with a top-level blob, at one whose second part is the
  plain text, and at one whose plain text is nested.\<close>

theorem body_of_top_level_scan_witness:
  "truthy_data (blob_data (payload_body inline_payload)) = Some ''aGVsbG8gd29ybGQ''
   \<and> decode_blob ''aGVsbG8gd29ybGQ'' = Inr ''hello world''
   \<and> body_of (Some inline_payload) = Inr ''hello world''
   \<and> truthy_data (blob_data (payload_body flat_payload)) = None
   \<and> payload_parts flat_payload = Some ([html_part] @ plain_part # [])
   \<and> \<not> plain_with_blob html_part
   \<and> mimeType plain_part = ''text/plain''
   \<and> truthy_data (blob_data (part_body plain_part)) = Some ''aGk=''
   \<and> decode_blob ''aGk='' = Inr ''hi''
   \<and> body_of (Some flat_payload) = Inr ''hi''
   \<and> truthy_data (blob_data (payload_body nested_payload)) = None
   \<and> payload_parts nested_payload
        = Some [Part ''multipart/alternative'' None [plain_part, html_part]]
   \<and> \<not> plain_with_blob (Part ''multipart/alternative'' None [plain_part, html_part])
   \<and> body_of (Some nested_payload) = Inr []"
proof -
  have top: "truthy_data (blob_data (payload_body inline_payload)) = Some ''aGVsbG8gd29ybGQ''"
    by (simp add: inline_payload_def blob_data_def truthy_data_def)
  have hello: "decode_blob ''aGVsbG8gd29ybGQ'' = Inr ''hello world''"
    by (simp add: atob_defs)
  have hi: "decode_blob ''aGk='' = Inr ''hi''"
    by (simp add: atob_defs)
  have flat: "truthy_data (blob_data (payload_body flat_payload)) = None"
    "payload_parts flat_payload = Some ([html_part] @ plain_part # [])"
    by (simp_all add: flat_payload_def blob_data_def truthy_data_def)
  have html: "\<not> plain_with_blob html_part"
    by (simp add: plain_with_blob_def html_part_def)
  have plain: "mimeType plain_part = ''text/plain''"
    "truthy_data (blob_data (part_body plain_part)) = Some ''aGk=''"
    by (simp_all add: plain_part_def blob_data_def truthy_data_def)
  have nested: "truthy_data (blob_data (payload_body nested_payload)) = None"
    "payload_parts nested_payload
        = Some [Part ''multipart/alternative'' None [plain_part, html_part]]"
    by (simp_all add: nested_payload_def blob_data_def truthy_data_def)
  have multi: "\<not> plain_with_blob (Part ''multipart/alternative'' None [plain_part, html_part])"
    by (simp add: plain_with_blob_def)
  from body_of_top_level_scan [of inline_payload "''aGVsbG8gd29ybGQ''"] top hello
  have b1: "body_of (Some inline_payload) = Inr ''hello world''"
    by simp
  from body_of_top_level_scan [of flat_payload "''aGk=''" "[html_part]" plain_part "[]"]
    flat html plain hi
  have b2: "body_of (Some flat_payload) = Inr ''hi''"
    by simp
  from body_of_top_level_scan
    [of nested_payload _ _ _ _ "[Part ''multipart/alternative'' None [plain_part, html_part]]"]
    nested multi
  have b3: "body_of (Some nested_payload) = Inr []"
    by simp
  from top hello b1 flat html plain hi b2 nested multi b3 show ?thesis
    by simp
qed

section \<open>gmail-fetch: a blob that is not base64\<close>

lemma position_None: "position c xs = None \<longleftrightarrow> c \<notin> set xs"
  by (induction xs) auto

lemma sextets_Some: "(\<exists>ns. sextets d = Some ns) \<longleftrightarrow> set d \<subseteq> set base64_alphabet"
proof (induction d)
  case Nil
  then show ?case by simp
next
  case (Cons c cs)
  show ?case
  proof (cases "position c base64_alphabet")
    case None
    then show ?thesis
      by (simp add: position_None [symmetric])
  next
    case (Some n)
    then have "c \<in> set base64_alphabet"
      using position_None [of c base64_alphabet] by simp
    with Some Cons.IH show ?thesis
      by auto
  qed
qed

lemma atob_returns_iff:
  "(\<exists>s. atob x = Inr s) \<longleftrightarrow>
     length (strip_padding (filter (\<lambda>c. \<not> ascii_whitespace c) x)) mod 4 \<noteq> 1
     \<and> set (strip_padding (filter (\<lambda>c. \<not> ascii_whitespace c) x)) \<subseteq> set base64_alphabet"
proof -
  let ?d = "strip_padding (filter (\<lambda>c. \<not> ascii_whitespace c) x)"
  have "(\<exists>s. atob x = Inr s) \<longleftrightarrow> length ?d mod 4 \<noteq> 1 \<and> (\<exists>ns. sextets ?d = Some ns)"
    by (auto simp add: atob_def Let_def split: option.splits)
  then show ?thesis
    by (simp only: sextets_Some)
qed

lemma atob_error: "atob x = Inl e \<Longrightarrow> e = InvalidCharacterError"
  by (auto simp add: atob_def Let_def split: if_splits option.splits)

lemma scan_parts_error: "scan_parts ps = Inl e \<Longrightarrow> e = InvalidCharacterError"
  by (induction ps) (auto simp add: decode_blob_def dest: atob_error split: if_splits option.splits)

lemma body_of_error: "body_of pl = Inl e \<Longrightarrow> e = InvalidCharacterError"
  by (auto simp add: body_of_def decode_blob_def dest: atob_error scan_parts_error
        split: option.splits)

lemma hydrate_body_error:
  assumes "get_message w token (ref_id m) = Some dr" and "ok dr" and "http_json dr = Some dt"
    and "body_of (detail_payload dt) = Inl e"
  shows "hydrate w token m = Inl e"
  using assms by (simp add: hydrate_def bind_err_def)

lemma gmail_fetch_rejection:
  assumes "gmail_accessToken r = Some token" and "token \<noteq> []"
    and "list_messages w token (case maxResults r of None \<Rightarrow> 10 | Some k \<Rightarrow> k) = Some lr"
    and "ok lr" and "http_json lr = Some el" and "messages el = Some ms"
    and "m \<in> set (slice0 (case maxResults r of None \<Rightarrow> 10 | Some k \<Rightarrow> k) ms)"
    and "hydrate w token m = Inl e"
  shows "\<exists>e'. gmail_fetch w (Inr r) = \<lparr> status = 500, json_body = CaughtMessage e' \<rparr>"
proof -
  from map_err_Inl [of m _ "hydrate w token" e] assms(7,8) obtain e' where
    "map_err (hydrate w token) (slice0 (case maxResults r of None \<Rightarrow> 10 | Some k \<Rightarrow> k) ms) = Inl e'"
    by blast
  with assms(1-6) have "gmail_fetch w (Inr r) = \<lparr> status = 500, json_body = CaughtMessage e' \<rparr>"
    by (simp add: gmail_fetch_def gmail_try_def bind_err_def Let_def)
  then show ?thesis by blast
qed


text \<open>
  Claim C4, as stated, has the decoder return a string for every payload and keeps a
  decoding failure from aborting the request. \<^verbatim>\<open>atob\<close> throws on the blob \<^verbatim>\<open>!\<close>; nothing
  between the call and the \<^verbatim>\<open>catch\<close> of the handler catches it, and the request for a
  mailbox with one such message among three is answered with status 500.
\<close>

theorem malformed_blob_counterexample:
  "payload_body bad_payload = Some \<lparr> data = Some ''!'' \<rparr>
   \<and> body_of (Some bad_payload) = Inl InvalidCharacterError
   \<and> gmail_fetch bad_mailbox (Inr sample_gmail_request)
       = \<lparr> status = 500, json_body = CaughtMessage InvalidCharacterError \<rparr>"
  by (simp add: bad_payload_def body_of_def blob_data_def truthy_data_def atob_defs
        gmail_fetch_def gmail_try_def bad_mailbox_def sample_gmail_request_def
        sample_listing_def bad_details_def ok_def slice0_def hydrate_def bind_err_def
        flat_payload_def html_part_def plain_part_def Let_def)

text \<open>
  Claim C4, amended. For every payload the decoder returns a string or raises an
  InvalidCharacterError and nothing else. A blob decodes exactly when, after the URL-safe
  mapping and without whitespace and padding, its length is not 1 modulo 4 and all its
  characters are in the base64 alphabet. When the decoder raises for a listed message
  whose detail call succeeded, the List+Hydrate request is aborted: it is answered with
  status 500 and an error message, and no messages.
\<close>

theorem malformed_blob_aborts_request:
  "(body_of pl = Inl e \<longrightarrow> e = InvalidCharacterError)
   \<and> ((\<exists>s. decode_blob d = Inr s) \<longleftrightarrow>
        length (strip_padding (filter (\<lambda>c. \<not> ascii_whitespace c) (base64url_to_base64 d)))
          mod 4 \<noteq> 1
        \<and> set (strip_padding (filter (\<lambda>c. \<not> ascii_whitespace c) (base64url_to_base64 d)))
            \<subseteq> set base64_alphabet)
   \<and> (gmail_accessToken r = Some token \<and> token \<noteq> []
        \<and> list_messages w token (case maxResults r of None \<Rightarrow> 10 | Some k \<Rightarrow> k) = Some lr
        \<and> ok lr \<and> http_json lr = Some el \<and> messages el = Some ms
        \<and> m \<in> set (slice0 (case maxResults r of None \<Rightarrow> 10 | Some k \<Rightarrow> k) ms)
        \<and> get_message w token (ref_id m) = Some dr \<and> ok dr \<and> http_json dr = Some dt
        \<and> body_of (detail_payload dt) = Inl e \<longrightarrow>
        (\<exists>e'. gmail_fetch w (Inr r) = \<lparr> status = 500, json_body = CaughtMessage e' \<rparr>))"
proof (intro conjI impI)
  assume "body_of pl = Inl e"
  then show "e = InvalidCharacterError" by (rule body_of_error)
next
  show "(\<exists>s. decode_blob d = Inr s) \<longleftrightarrow>
        length (strip_padding (filter (\<lambda>c. \<not> ascii_whitespace c) (base64url_to_base64 d)))
          mod 4 \<noteq> 1
        \<and> set (strip_padding (filter (\<lambda>c. \<not> ascii_whitespace c) (base64url_to_base64 d)))
            \<subseteq> set base64_alphabet"
    unfolding decode_blob_def by (rule atob_returns_iff)
next
  assume a: "gmail_accessToken r = Some token \<and> token \<noteq> []
        \<and> list_messages w token (case maxResults r of None \<Rightarrow> 10 | Some k \<Rightarrow> k) = Some lr
        \<and> ok lr \<and> http_json lr = Some el \<and> messages el = Some ms
        \<and> m \<in> set (slice0 (case maxResults r of None \<Rightarrow> 10 | Some k \<Rightarrow> k) ms)
        \<and> get_message w token (ref_id m) = Some dr \<and> ok dr \<and> http_json dr = Some dt
        \<and> body_of (detail_payload dt) = Inl e"
  then have "hydrate w token m = Inl e"
    using hydrate_body_error [of w token m dr dt e] by blast
  with a show "\<exists>e'. gmail_fetch w (Inr r) = \<lparr> status = 500, json_body = CaughtMessage e' \<rparr>"
    using gmail_fetch_rejection [of r token w lr el ms m e] by blast
qed


text \<open>The theorem at the mailbox whose second message has the blob \<^verbatim>\<open>!\<close>.\<close>

theorem malformed_blob_aborts_request_witness:
  "body_of (Some bad_payload) = Inl InvalidCharacterError
   \<and> \<not> set (strip_padding (filter (\<lambda>c. \<not> ascii_whitespace c) (base64url_to_base64 ''!'')))
          \<subseteq> set base64_alphabet
   \<and> \<not> (\<exists>s. decode_blob ''!'' = Inr s)
   \<and> gmail_accessToken sample_gmail_request = Some ''token''
   \<and> list_messages bad_mailbox ''token'' 10 = sample_listing ''token'' 10
   \<and> \<lparr> ref_id = ''m2'' \<rparr> \<in> set (slice0 10 [\<lparr> ref_id = ''m1'' \<rparr>, \<lparr> ref_id = ''m2'' \<rparr>, \<lparr> ref_id = ''m3'' \<rparr>])
   \<and> get_message bad_mailbox ''token'' ''m2''
        = Some \<lparr> http_status = 200,
                 http_json = Some \<lparr> detail_snippet = Some ''hi'',
                                     detail_payload = Some bad_payload \<rparr> \<rparr>
   \<and> (\<exists>e'. gmail_fetch bad_mailbox (Inr sample_gmail_request)
              = \<lparr> status = 500, json_body = CaughtMessage e' \<rparr>)"
proof -
  let ?ms = "[\<lparr> ref_id = ''m1'' \<rparr>, \<lparr> ref_id = ''m2'' \<rparr>, \<lparr> ref_id = ''m3'' \<rparr>]"
  let ?el = "\<lparr> messages = Some ?ms \<rparr>"
  let ?lr = "\<lparr> http_status = 200, http_json = Some ?el \<rparr>"
  let ?dt = "\<lparr> detail_snippet = Some ''hi'', detail_payload = Some bad_payload \<rparr>"
  let ?dr = "\<lparr> http_status = 200, http_json = Some ?dt \<rparr>"
  note inst = malformed_blob_aborts_request [of "Some bad_payload" InvalidCharacterError "''!''"
      sample_gmail_request "''token''" bad_mailbox ?lr ?el ?ms "\<lparr> ref_id = ''m2'' \<rparr>" ?dr ?dt]
  have raise: "body_of (Some bad_payload) = Inl InvalidCharacterError"
    by (simp add: bad_payload_def body_of_def blob_data_def truthy_data_def atob_defs)
  have alphabet:
    "\<not> set (strip_padding (filter (\<lambda>c. \<not> ascii_whitespace c) (base64url_to_base64 ''!'')))
          \<subseteq> set base64_alphabet"
    by (simp add: atob_defs)
  with inst have rejected: "\<not> (\<exists>s. decode_blob ''!'' = Inr s)"
    by blast
  have token: "gmail_accessToken sample_gmail_request = Some ''token''"
    and cap: "(case maxResults sample_gmail_request of None \<Rightarrow> 10 | Some k \<Rightarrow> k) = 10"
    by (simp_all add: sample_gmail_request_def)
  have listing: "list_messages bad_mailbox ''token'' 10 = sample_listing ''token'' 10"
    "sample_listing ''token'' 10 = Some ?lr" "ok ?lr"
    by (simp_all add: bad_mailbox_def sample_listing_def ok_def)
  have member: "\<lparr> ref_id = ''m2'' \<rparr> \<in> set (slice0 10 ?ms)"
    by (simp add: slice0_def)
  have detail: "get_message bad_mailbox ''token'' ''m2'' = Some ?dr" "ok ?dr"
    by (simp_all add: bad_mailbox_def bad_details_def ok_def)
  from inst raise token cap listing member detail
  have abort: "\<exists>e'. gmail_fetch bad_mailbox (Inr sample_gmail_request)
              = \<lparr> status = 500, json_body = CaughtMessage e' \<rparr>"
    by simp
  from raise alphabet rejected token listing(1) member detail(1) abort show ?thesis
    by blast
qed

section \<open>gmail-fetch: hydration\<close>

lemma fetch_fails_hydrate: "fetch_fails w token m \<Longrightarrow> hydrate w token m = Inr None"
  by (auto simp add: fetch_fails_def hydrate_def split: option.splits)

lemma hydrate_Some:
  "hydrate w token m = Inr (Some x) \<Longrightarrow> \<not> fetch_fails w token m \<and> msg_id x = ref_id m"
  by (auto simp add: fetch_fails_def hydrate_def bind_err_def Let_def
        split: option.splits if_splits sum.splits)

lemma slice0_within: "int (length xs) \<le> k \<Longrightarrow> slice0 k xs = xs"
  by (auto simp add: slice0_def)

lemma hydrate_all:
  assumes "\<forall>m \<in> set ms. fetch_fails w token m \<or> (\<exists>x. hydrate w token m = Inr (Some x))"
  shows "\<exists>ds. map_err (hydrate w token) ms = Inr ds
           \<and> map (\<lambda>x. Inr (Some x)) (validEmails ds)
               = map (hydrate w token) (filter (\<lambda>m. \<not> fetch_fails w token m) ms)
           \<and> map msg_id (validEmails ds)
               = map ref_id (filter (\<lambda>m. \<not> fetch_fails w token m) ms)"
  using assms
proof (induction ms)
  case Nil
  then show ?case by (simp add: validEmails_def map_filter_simps)
next
  case (Cons m ms)
  then obtain ds where ds: "map_err (hydrate w token) ms = Inr ds"
    "map (\<lambda>x. Inr (Some x)) (validEmails ds)
       = map (hydrate w token) (filter (\<lambda>m. \<not> fetch_fails w token m) ms)"
    "map msg_id (validEmails ds) = map ref_id (filter (\<lambda>m. \<not> fetch_fails w token m) ms)"
    by auto
  from Cons.prems consider (fails) "fetch_fails w token m"
    | (hydrated) x where "hydrate w token m = Inr (Some x)"
    by auto
  then show ?case
  proof cases
    case fails
    then have "hydrate w token m = Inr None" by (rule fetch_fails_hydrate)
    with fails ds show ?thesis
      by (simp add: validEmails_def map_filter_simps)
  next
    case hydrated
    from hydrate_Some [OF hydrated] have "\<not> fetch_fails w token m" "msg_id x = ref_id m"
      by simp_all
    with hydrated ds show ?thesis
      by (simp add: validEmails_def map_filter_simps)
  qed
qed

text \<open>What the decoder returns and when a message hydrates, read off the response.\<close>

lemma scan_parts_find:
  "scan_parts ps
     = (case find plain_with_blob ps of
          None \<Rightarrow> Inr []
        | Some q \<Rightarrow> (case blob_data (part_body q) of
                       None \<Rightarrow> Inr []
                     | Some d \<Rightarrow> decode_blob d))"
  by (induction ps)
     (auto simp add: plain_with_blob_def truthy_data_def split: option.splits if_splits)

lemma body_of_selected:
  "body_of pl = (case selected_blob pl of None \<Rightarrow> Inr [] | Some d \<Rightarrow> decode_blob d)"
proof (cases pl)
  case None
  then show ?thesis
    by (simp add: body_of_def selected_blob_def truthy_data_def)
next
  case (Some p)
  then show ?thesis
    by (auto simp add: body_of_def selected_blob_def scan_parts_find split: option.splits)
qed

lemma valid_base64url_decodes: "valid_base64url d \<longleftrightarrow> (\<exists>s. decode_blob d = Inr s)"
  unfolding valid_base64url_def decode_blob_def by (simp only: atob_returns_iff)

lemma fetch_decodes_hydrate:
  assumes "fetch_decodes w token m"
  shows "\<exists>x. hydrate w token m = Inr (Some x)"
proof -
  from assms obtain dr dt where
    dr: "get_message w token (ref_id m) = Some dr" "ok dr" "http_json dr = Some dt"
    and blob: "case selected_blob (detail_payload dt) of None \<Rightarrow> True | Some d \<Rightarrow> valid_base64url d"
    by (auto simp add: fetch_decodes_def split: option.splits)
  from blob obtain s where "body_of (detail_payload dt) = Inr s"
    by (auto simp add: body_of_selected valid_base64url_decodes split: option.splits)
  with dr show ?thesis
    by (simp add: hydrate_def bind_err_def Let_def)
qed

lemma hydrate_record_iff:
  "(\<exists>x. hydrate w token m = Inr (Some x)) \<longleftrightarrow> fetch_decodes w token m"
proof
  assume "\<exists>x. hydrate w token m = Inr (Some x)"
  then show "fetch_decodes w token m"
    by (auto simp add: hydrate_def fetch_decodes_def bind_err_def Let_def body_of_selected
          valid_base64url_decodes split: option.splits if_splits sum.splits)
next
  assume "fetch_decodes w token m"
  then show "\<exists>x. hydrate w token m = Inr (Some x)"
    by (rule fetch_decodes_hydrate)
qed

text \<open>
  Claim C8, as stated, promises \<open>N - M\<close> records whenever \<open>M\<close> of \<open>N\<close> detail calls answer
  with a non-success response. In a mailbox of three messages where the call for \<open>m1\<close>
  answers 404 and the calls for \<open>m2\<close> and \<open>m3\<close> succeed, but the body of \<open>m2\<close> is the blob
  \<^verbatim>\<open>!\<close>, \<^verbatim>\<open>atob\<close> throws while \<open>m2\<close> is hydrated, \<^verbatim>\<open>Promise.all\<close> rejects, and the operation
  answers status 500 with no records.
\<close>

theorem undecodable_fetch_counterexample:
  "list_messages mixed_mailbox ''token'' 10
     = Some \<lparr> http_status = 200,
              http_json = Some \<lparr> messages = Some [\<lparr> ref_id = ''m1'' \<rparr>, \<lparr> ref_id = ''m2'' \<rparr>,
                                                  \<lparr> ref_id = ''m3'' \<rparr>] \<rparr> \<rparr>
   \<and> fetch_fails mixed_mailbox ''token'' \<lparr> ref_id = ''m1'' \<rparr>
   \<and> \<not> fetch_fails mixed_mailbox ''token'' \<lparr> ref_id = ''m2'' \<rparr>
   \<and> \<not> fetch_fails mixed_mailbox ''token'' \<lparr> ref_id = ''m3'' \<rparr>
   \<and> gmail_fetch mixed_mailbox (Inr sample_gmail_request)
       = \<lparr> status = 500, json_body = CaughtMessage InvalidCharacterError \<rparr>"
  by (simp add: fetch_fails_def bad_payload_def body_of_def blob_data_def truthy_data_def
        atob_defs gmail_fetch_def gmail_try_def mixed_mailbox_def mixed_details_def
        sample_gmail_request_def sample_listing_def ok_def slice0_def hydrate_def bind_err_def
        flat_payload_def html_part_def plain_part_def Let_def)

text \<open>
  Claim C8, amended. For every listing of \<open>N\<close> message identifiers (within the cap of the
  request) in which the detail call answers with a non-success response for \<open>M\<close> of them
  and, for each of the others, with a success response that has a readable JSON body whose
  selected blob, if any, is valid base64url, the List+Hydrate operation answers with status
  200 and exactly \<open>N - M\<close> records: those of the messages whose call succeeded, in the
  order of the listing. The \<open>M\<close> failures cause no error.
\<close>

theorem decodable_fetches_are_returned:
  assumes "gmail_accessToken r = Some token" and "token \<noteq> []"
    and "list_messages w token (case maxResults r of None \<Rightarrow> 10 | Some k \<Rightarrow> k) = Some lr"
    and "ok lr" and "http_json lr = Some el" and "messages el = Some ms"
    and "int (length ms) \<le> (case maxResults r of None \<Rightarrow> 10 | Some k \<Rightarrow> k)"
    and "\<forall>m \<in> set ms. fetch_fails w token m \<or> fetch_decodes w token m"
  shows "\<exists>recs. gmail_fetch w (Inr r) = \<lparr> status = 200, json_body = Success recs \<rparr>
           \<and> length recs = length ms - length (filter (fetch_fails w token) ms)
           \<and> map msg_id recs = map ref_id (filter (\<lambda>m. \<not> fetch_fails w token m) ms)
           \<and> map (\<lambda>x. Inr (Some x)) recs
               = map (hydrate w token) (filter (\<lambda>m. \<not> fetch_fails w token m) ms)"
proof -
  from assms(8) have
    "\<forall>m \<in> set ms. fetch_fails w token m \<or> (\<exists>x. hydrate w token m = Inr (Some x))"
    by (auto dest: fetch_decodes_hydrate)
  from hydrate_all [OF this] obtain ds where
    ds: "map_err (hydrate w token) ms = Inr ds"
      "map (\<lambda>x. Inr (Some x)) (validEmails ds)
         = map (hydrate w token) (filter (\<lambda>m. \<not> fetch_fails w token m) ms)"
      "map msg_id (validEmails ds) = map ref_id (filter (\<lambda>m. \<not> fetch_fails w token m) ms)"
    by blast
  have "slice0 (case maxResults r of None \<Rightarrow> 10 | Some k \<Rightarrow> k) ms = ms"
    using assms(7) by (rule slice0_within)
  with assms(1-6) ds(1)
  have run: "gmail_fetch w (Inr r) = \<lparr> status = 200, json_body = Success (validEmails ds) \<rparr>"
    by (simp add: gmail_fetch_def gmail_try_def bind_err_def Let_def)
  from ds(3) have "length (validEmails ds) = length (filter (\<lambda>m. \<not> fetch_fails w token m) ms)"
    by (metis length_map)
  also have "\<dots> = length ms - length (filter (fetch_fails w token) ms)"
    using sum_length_filter_compl [of "fetch_fails w token" ms] by simp
  finally have "length (validEmails ds) = length ms - length (filter (fetch_fails w token) ms)" .
  with run ds(2,3) show ?thesis by blast
qed

text \<open>The theorem at the mailbox of three messages whose second detail call answers 404.\<close>

theorem decodable_fetches_are_returned_witness:
  "list_messages sample_mailbox ''token'' 10
     = Some \<lparr> http_status = 200,
              http_json = Some \<lparr> messages = Some [\<lparr> ref_id = ''m1'' \<rparr>, \<lparr> ref_id = ''m2'' \<rparr>,
                                                  \<lparr> ref_id = ''m3'' \<rparr>] \<rparr> \<rparr>
   \<and> fetch_decodes sample_mailbox ''token'' \<lparr> ref_id = ''m1'' \<rparr>
   \<and> fetch_fails sample_mailbox ''token'' \<lparr> ref_id = ''m2'' \<rparr>
   \<and> fetch_decodes sample_mailbox ''token'' \<lparr> ref_id = ''m3'' \<rparr>
   \<and> \<not> fetch_fails sample_mailbox ''token'' \<lparr> ref_id = ''m1'' \<rparr>
   \<and> \<not> fetch_fails sample_mailbox ''token'' \<lparr> ref_id = ''m3'' \<rparr>
   \<and> (\<exists>recs. gmail_fetch sample_mailbox (Inr sample_gmail_request)
               = \<lparr> status = 200, json_body = Success recs \<rparr>
          \<and> length recs = 2
          \<and> map msg_id recs = [''m1'', ''m3''])"
proof -
  let ?ms = "[\<lparr> ref_id = ''m1'' \<rparr>, \<lparr> ref_id = ''m2'' \<rparr>, \<lparr> ref_id = ''m3'' \<rparr>]"
  let ?el = "\<lparr> messages = Some ?ms \<rparr>"
  let ?lr = "\<lparr> http_status = 200, http_json = Some ?el \<rparr>"
  have fails: "fetch_fails sample_mailbox ''token'' \<lparr> ref_id = ''m2'' \<rparr>"
    and succeeds: "\<not> fetch_fails sample_mailbox ''token'' \<lparr> ref_id = ''m1'' \<rparr>"
      "\<not> fetch_fails sample_mailbox ''token'' \<lparr> ref_id = ''m3'' \<rparr>"
    by (simp_all add: fetch_fails_def sample_mailbox_def sample_details_def ok_def)
  have decodes: "fetch_decodes sample_mailbox ''token'' \<lparr> ref_id = ''m1'' \<rparr>"
    "fetch_decodes sample_mailbox ''token'' \<lparr> ref_id = ''m3'' \<rparr>"
    by (simp_all add: fetch_decodes_def sample_mailbox_def sample_details_def ok_def
          selected_blob_def flat_payload_def html_part_def plain_part_def blob_data_def
          truthy_data_def plain_with_blob_def valid_base64url_def base64url_to_base64_def
          strip_padding_def ascii_whitespace_def base64_alphabet_def)
  have token: "gmail_accessToken sample_gmail_request = Some ''token''" "''token'' \<noteq> []"
    and cap: "(case maxResults sample_gmail_request of None \<Rightarrow> 10 | Some k \<Rightarrow> k) = 10"
    by (simp_all add: sample_gmail_request_def)
  have listing: "list_messages sample_mailbox ''token'' 10 = Some ?lr"
    by (simp add: sample_mailbox_def sample_listing_def)
  have "list_messages sample_mailbox ''token''
          (case maxResults sample_gmail_request of None \<Rightarrow> 10 | Some k \<Rightarrow> k) = Some ?lr"
    by (simp only: cap listing)
  moreover have "ok ?lr" "http_json ?lr = Some ?el" "messages ?el = Some ?ms"
    by (simp_all add: ok_def)
  moreover have "int (length ?ms)
      \<le> (case maxResults sample_gmail_request of None \<Rightarrow> 10 | Some k \<Rightarrow> k)"
    by (simp add: cap)
  moreover have "\<forall>m \<in> set ?ms. fetch_fails sample_mailbox ''token'' m
      \<or> fetch_decodes sample_mailbox ''token'' m"
    using fails decodes by simp
  ultimately obtain recs where
    recs: "gmail_fetch sample_mailbox (Inr sample_gmail_request)
             = \<lparr> status = 200, json_body = Success recs \<rparr>"
      "length recs = length ?ms - length (filter (fetch_fails sample_mailbox ''token'') ?ms)"
      "map msg_id recs
         = map ref_id (filter (\<lambda>m. \<not> fetch_fails sample_mailbox ''token'' m) ?ms)"
    using decodable_fetches_are_returned [OF token, of sample_mailbox ?lr ?el ?ms] by blast
  from recs(2) fails succeeds have "length recs = 2" by simp
  moreover from recs(3) fails succeeds have "map msg_id recs = [''m1'', ''m3'']" by simp
  ultimately have returned:
    "\<exists>recs. gmail_fetch sample_mailbox (Inr sample_gmail_request)
               = \<lparr> status = 200, json_body = Success recs \<rparr>
          \<and> length recs = 2
          \<and> map msg_id recs = [''m1'', ''m3'']"
    using recs(1) by (intro exI [of _ recs] conjI)
  show ?thesis
    by (intro conjI listing decodes fails succeeds returned)
qed

end
